theory Spec2Isabelle
  imports Complex_Main
begin

section \<open>Values and exceptions of the Python program\<close>

text \<open>
  The integration talks JSON with the Tiko service and handles every reply as a plain
  Python value (\<^verbatim>\<open>dict\<close>, \<^verbatim>\<open>list\<close>, \<^verbatim>\<open>str\<close>, \<^verbatim>\<open>int\<close>, \<^verbatim>\<open>float\<close>, \<^verbatim>\<open>bool\<close>,
  \<^verbatim>\<open>None\<close>). A \<^verbatim>\<open>dict\<close> decoded from JSON is kept as the list of its items; a lookup
  takes the last item with the key, as the decoder lets a later duplicate win.
  A float never enters arithmetic in this program, it is only passed on, so it is kept
  as the number it denotes.
\<close>

datatype json =
    JNull
  | JBool bool
  | JInt int
  | JFloat real
  | JStr string
  | JList "json list"
  | JObj "(string \<times> json) list"

text \<open>
  An exception is its class and the text \<^verbatim>\<open>str(err)\<close>: the coordinator decides
  what to do with a failure by class (\<^verbatim>\<open>except ConfigEntryAuthFailed\<close>) and by a
  substring of that text.
\<close>

datatype exn_class =
    ClientError
  | TikoAuthenticationError
  | TikoRateLimitError
  | ConfigEntryAuthFailed
  | UpdateFailed
  | KeyError
  | IndexError
  | TypeError
  | AttributeError
  | ValueError
  | TimeoutError
  | UnicodeEncodeError

datatype exn = Exn (cls: exn_class) (msg: string)

type_synonym 'a result = "exn + 'a"

subsection \<open>Python's operations on decoded JSON\<close>

text \<open>
  Each operation returns what Python returns or the exception it raises, with the text
  CPython 3.12 gives it. The program looks into these texts only for the substring
  \<^verbatim>\<open>Authentication failed\<close>.
\<close>

definition quoted :: "string \<Rightarrow> string" where
  \<comment> \<open>\<^verbatim>\<open>repr\<close> of a key that the source writes as a literal (letters only)\<close>
  "quoted k = [CHR 0x27] @ k @ [CHR 0x27]"

fun type_name :: "json \<Rightarrow> string" where
  "type_name JNull = ''NoneType''"
| "type_name (JBool _) = ''bool''"
| "type_name (JInt _) = ''int''"
| "type_name (JFloat _) = ''float''"
| "type_name (JStr _) = ''str''"
| "type_name (JList _) = ''list''"
| "type_name (JObj _) = ''dict''"

fun is_substring :: "string \<Rightarrow> string \<Rightarrow> bool" where
  "is_substring sub [] = (sub = [])"
| "is_substring sub (c # cs) = (take (length sub) (c # cs) = sub \<or> is_substring sub cs)"

definition dict_lookup :: "(string \<times> json) list \<Rightarrow> string \<Rightarrow> json option" where
  "dict_lookup kvs k = map_of (rev kvs) k"

fun py_truthy :: "json \<Rightarrow> bool" where
  "py_truthy JNull = False"
| "py_truthy (JBool b) = b"
| "py_truthy (JInt i) = (i \<noteq> 0)"
| "py_truthy (JFloat x) = (x \<noteq> 0)"
| "py_truthy (JStr s) = (s \<noteq> [])"
| "py_truthy (JList xs) = (xs \<noteq> [])"
| "py_truthy (JObj kvs) = (kvs \<noteq> [])"

text \<open>\<^verbatim>\<open>k in x\<close> for a literal string \<open>k\<close>.\<close>

fun py_in :: "string \<Rightarrow> json \<Rightarrow> bool result" where
  "py_in k (JObj kvs) = Inr (dict_lookup kvs k \<noteq> None)"
| "py_in k (JList xs) = Inr (JStr k \<in> set xs)"
| "py_in k (JStr s) = Inr (is_substring k s)"
| "py_in k v = Inl (Exn TypeError (''argument of type '' @ quoted (type_name v) @ '' is not iterable''))"

text \<open>\<^verbatim>\<open>x[k]\<close> for a literal string \<open>k\<close>.\<close>

fun py_item :: "json \<Rightarrow> string \<Rightarrow> json result" where
  "py_item (JObj kvs) k =
     (case dict_lookup kvs k of None \<Rightarrow> Inl (Exn KeyError (quoted k)) | Some v \<Rightarrow> Inr v)"
| "py_item (JList xs) k =
     Inl (Exn TypeError ''list indices must be integers or slices, not str'')"
| "py_item (JStr s) k =
     Inl (Exn TypeError (''string indices must be integers, not '' @ quoted ''str''))"
| "py_item v k =
     Inl (Exn TypeError (quoted (type_name v) @ '' object is not subscriptable''))"

text \<open>
  \<^verbatim>\<open>x[0]\<close>. A JSON object has string keys only, so the key \<open>0\<close> is never there. On a
  string the result is its first character; every use in this program indexes the
  result by a string next, which fails for any string.
\<close>

fun py_first :: "json \<Rightarrow> json result" where
  "py_first (JList []) = Inl (Exn IndexError ''list index out of range'')"
| "py_first (JList (x # xs)) = Inr x"
| "py_first (JStr []) = Inl (Exn IndexError ''string index out of range'')"
| "py_first (JStr (c # cs)) = Inr (JStr [c])"
| "py_first (JObj kvs) = Inl (Exn KeyError ''0'')"
| "py_first v = Inl (Exn TypeError (quoted (type_name v) @ '' object is not subscriptable''))"

text \<open>\<^verbatim>\<open>x.get(k, default)\<close>: only a \<^verbatim>\<open>dict\<close> has the method.\<close>

fun py_get :: "json \<Rightarrow> string \<Rightarrow> json \<Rightarrow> json result" where
  "py_get (JObj kvs) k d = Inr (case dict_lookup kvs k of None \<Rightarrow> d | Some v \<Rightarrow> v)"
| "py_get v k d =
     Inl (Exn AttributeError
       (quoted (type_name v) @ '' object has no attribute '' @ quoted ''get''))"

text \<open>
  \<^verbatim>\<open>for x in v\<close>: the elements of a list, the keys of a dict, the characters of a
  string.
\<close>

fun py_iter :: "json \<Rightarrow> json list result" where
  "py_iter (JList xs) = Inr xs"
| "py_iter (JObj kvs) = Inr (map (JStr \<circ> fst) kvs)"
| "py_iter (JStr s) = Inr (map (\<lambda>c. JStr [c]) s)"
| "py_iter v = Inl (Exn TypeError (quoted (type_name v) @ '' object is not iterable''))"

text \<open>
  \<^verbatim>\<open>x[:10]\<close>, as far as it raises: only sequences can be sliced. (For a dict the
  class is \<^verbatim>\<open>TypeError\<close> up to Python 3.11 and \<^verbatim>\<open>KeyError\<close> from 3.12 on; the program
  treats both alike.)
\<close>

fun py_slice :: "json \<Rightarrow> unit result" where
  "py_slice (JStr s) = Inr ()"
| "py_slice (JList xs) = Inr ()"
| "py_slice (JObj kvs) = Inl (Exn TypeError (''unhashable type: '' @ quoted ''slice''))"
| "py_slice v = Inl (Exn TypeError (quoted (type_name v) @ '' object is not subscriptable''))"

subsection \<open>\<^verbatim>\<open>str\<close> of a value\<close>

definition digit_char :: "nat \<Rightarrow> char" where
  "digit_char n = ''0123456789'' ! n"

fun string_of_nat :: "nat \<Rightarrow> string" where
  "string_of_nat n =
     (if n < 10 then [digit_char n] else string_of_nat (n div 10) @ [digit_char (n mod 10)])"

declare string_of_nat.simps [simp del]

definition string_of_int :: "int \<Rightarrow> string" where
  "string_of_int i = (if i < 0 then CHR ''-'' # string_of_nat (nat (- i)) else string_of_nat (nat i))"

text \<open>
  \<^verbatim>\<open>str(v)\<close>. For a float, a list and a dict Python prints \<^verbatim>\<open>repr(v)\<close>, whose text
  (shortest round-trip digits, quoting and escaping of nested strings) is not modelled:
  it is the parameter \<open>rp\<close>, and every statement below holds for every \<open>rp\<close>.
\<close>

fun py_str :: "(json \<Rightarrow> string) \<Rightarrow> json \<Rightarrow> string" where
  "py_str rp JNull = ''None''"
| "py_str rp (JBool b) = (if b then ''True'' else ''False'')"
| "py_str rp (JInt i) = string_of_int i"
| "py_str rp (JStr s) = s"
| "py_str rp v = rp v"

section \<open>\<^verbatim>\<open>const.py\<close>: the mode tables\<close>

definition MODE_NORMAL :: string where "MODE_NORMAL = ''on''"
definition MODE_OFF :: string where "MODE_OFF = ''off''"
definition MODE_FROST :: string where "MODE_FROST = ''frost''"
definition MODE_ABSENCE :: string where "MODE_ABSENCE = ''absence''"

text \<open>A dict display or comprehension: the items in order, a later key overwriting.\<close>

definition dict_of :: "('k \<times> 'v) list \<Rightarrow> ('k \<rightharpoonup> 'v)" where
  "dict_of kvs = fold (\<lambda>(k, v) m. m(k \<mapsto> v)) kvs Map.empty"

definition HA_MODE_MAP_items :: "(string \<times> string) list" where
  "HA_MODE_MAP_items =
     [(MODE_NORMAL, ''heat''), (MODE_OFF, ''off''), (MODE_FROST, ''eco''), (MODE_ABSENCE, ''away'')]"

definition HA_MODE_MAP :: "string \<rightharpoonup> string" where
  "HA_MODE_MAP = dict_of HA_MODE_MAP_items"

definition TIKO_MODE_MAP :: "string \<rightharpoonup> string" where
  \<comment> \<open>\<^verbatim>\<open>{v: k for k, v in HA_MODE_MAP.items()}\<close>\<close>
  "TIKO_MODE_MAP = dict_of (map (\<lambda>(k, v). (v, k)) HA_MODE_MAP_items)"

definition dict_item :: "(string \<rightharpoonup> string) \<Rightarrow> string \<Rightarrow> string result" where
  \<comment> \<open>\<^verbatim>\<open>d[k]\<close> on a table of strings\<close>
  "dict_item d k = (case d k of None \<Rightarrow> Inl (Exn KeyError (quoted k)) | Some v \<Rightarrow> Inr v)"

definition mode_round_trip :: "string \<Rightarrow> string result" where
  \<comment> \<open>\<^verbatim>\<open>TIKO_MODE_MAP[HA_MODE_MAP[m]]\<close>\<close>
  "mode_round_trip m =
     (case dict_item HA_MODE_MAP m of Inl e \<Rightarrow> Inl e | Inr h \<Rightarrow> dict_item TIKO_MODE_MAP h)"

section \<open>\<^verbatim>\<open>urllib.parse.quote\<close> and \<^verbatim>\<open>unquote\<close>\<close>

text \<open>
  The password passes through \<^verbatim>\<open>quote\<close> in the constructor and through
  \<^verbatim>\<open>unquote\<close> at login. Both work on the UTF-8 encoding of a Python string, so here a
  string is what Python has: a list of code points below \<open>0x110000\<close> (\<open>pystr\<close>), and
  bytes are numbers below 256. The definitions follow CPython's \<^verbatim>\<open>urllib/parse.py\<close>
  and its UTF-8 codec, which the repository calls but does not contain.
\<close>

type_synonym pystr = "nat list"

definition is_pystr :: "pystr \<Rightarrow> bool" where
  "is_pystr s = list_all (\<lambda>c. c < 0x110000) s"

definition ascii :: "string \<Rightarrow> pystr" where
  "ascii s = map of_char s"

definition is_surrogate :: "nat \<Rightarrow> bool" where
  "is_surrogate c = (0xD800 \<le> c \<and> c \<le> 0xDFFF)"

definition hex_lower :: "nat \<Rightarrow> char" where
  "hex_lower n = ''0123456789abcdef'' ! n"

definition hex4 :: "nat \<Rightarrow> string" where
  "hex4 c = [hex_lower (c div 4096), hex_lower (c div 256 mod 16),
             hex_lower (c div 16 mod 16), hex_lower (c mod 16)]"

text \<open>
  \<^verbatim>\<open>str\<close> of the \<^verbatim>\<open>UnicodeEncodeError\<close> that the strict codec raises for the run
  of surrogates at positions \<open>i \<le> \<dots> < j\<close>, whose first character is \<open>c\<close>.
\<close>

definition surrogate_error :: "nat \<Rightarrow> nat \<Rightarrow> nat \<Rightarrow> exn" where
  "surrogate_error c i j = Exn UnicodeEncodeError
     (quoted ''utf-8'' @ '' codec can'' @ [CHR 0x27] @ ''t encode '' @
      (if j = Suc i
       then ''character '' @ [CHR 0x27, CHR 0x5C, CHR ''u''] @ hex4 c @ [CHR 0x27] @
            '' in position '' @ string_of_nat i
       else ''characters in position '' @ string_of_nat i @ ''-'' @ string_of_nat (j - 1)) @
      '': surrogates not allowed'')"

definition utf8_char :: "nat \<Rightarrow> nat list" where
  "utf8_char c =
     (if c < 0x80 then [c]
      else if c < 0x800 then [0xC0 + c div 64, 0x80 + c mod 64]
      else if c < 0x10000 then [0xE0 + c div 4096, 0x80 + c div 64 mod 64, 0x80 + c mod 64]
      else [0xF0 + c div 262144, 0x80 + c div 4096 mod 64, 0x80 + c div 64 mod 64,
            0x80 + c mod 64])"

text \<open>\<^verbatim>\<open>s.encode('utf-8', 'strict')\<close>, \<open>i\<close> the position reached.\<close>

fun utf8_encode_from :: "nat \<Rightarrow> pystr \<Rightarrow> nat list result" where
  "utf8_encode_from i [] = Inr []"
| "utf8_encode_from i (c # cs) =
     (if is_surrogate c
      then Inl (surrogate_error c i (Suc i + length (takeWhile is_surrogate cs)))
      else (case utf8_encode_from (Suc i) cs of
              Inl e \<Rightarrow> Inl e
            | Inr bs \<Rightarrow> Inr (utf8_char c @ bs)))"

definition utf8_encode :: "pystr \<Rightarrow> nat list result" where
  "utf8_encode s = utf8_encode_from 0 s"

definition always_safe :: "nat \<Rightarrow> bool" where
  "always_safe b = (b \<in> set (ascii
     (''ABCDEFGHIJKLMNOPQRSTUVWXYZ'' @ ''abcdefghijklmnopqrstuvwxyz'' @ ''0123456789'' @ ''_.-~'')))"

definition is_safe :: "nat \<Rightarrow> bool" where
  \<comment> \<open>the default \<^verbatim>\<open>safe='/'\<close>\<close>
  "is_safe b = (always_safe b \<or> b = of_char CHR ''/'')"

definition hex_upper :: "nat \<Rightarrow> nat" where
  "hex_upper n = ascii ''0123456789ABCDEF'' ! n"

definition quoter :: "nat \<Rightarrow> pystr" where
  \<comment> \<open>\<^verbatim>\<open>chr(b) if b in safe else '%{:02X}'.format(b)\<close>\<close>
  "quoter b = (if is_safe b then [b] else [37, hex_upper (b div 16), hex_upper (b mod 16)])"

definition quote_from_bytes :: "nat list \<Rightarrow> pystr" where
  "quote_from_bytes bs =
     (if bs = [] then []
      else if rev (dropWhile is_safe (rev bs)) = [] then bs
      else concat (map quoter bs))"

definition quote :: "pystr \<Rightarrow> pystr result" where
  "quote s =
     (if s = [] then Inr s
      else (case utf8_encode s of Inl e \<Rightarrow> Inl e | Inr bs \<Rightarrow> Inr (quote_from_bytes bs)))"

text \<open>\<^verbatim>\<open>bytes.split(b'%')\<close>: the pieces between the separators, at least one.\<close>

fun split_on :: "nat \<Rightarrow> nat list \<Rightarrow> nat list list" where
  "split_on d [] = [[]]"
| "split_on d (c # cs) =
     (if c = d then [] # split_on d cs
      else (case split_on d cs of [] \<Rightarrow> [[c]] | b # bs \<Rightarrow> (c # b) # bs))"

definition unhex :: "nat \<Rightarrow> nat option" where
  \<comment> \<open>a digit of \<^verbatim>\<open>'0123456789ABCDEFabcdef'\<close>\<close>
  "unhex c =
     (if 48 \<le> c \<and> c \<le> 57 then Some (c - 48)
      else if 65 \<le> c \<and> c \<le> 70 then Some (c - 55)
      else if 97 \<le> c \<and> c \<le> 102 then Some (c - 87)
      else None)"

fun unquote_item :: "nat list \<Rightarrow> nat list" where
  \<comment> \<open>the piece after a \<^verbatim>\<open>%\<close>: two hex digits make a byte, anything else is kept\<close>
  "unquote_item (a # b # rest) =
     (case (unhex a, unhex b) of
        (Some x, Some y) \<Rightarrow> (16 * x + y) # rest
      | _ \<Rightarrow> 37 # a # b # rest)"
| "unquote_item item = 37 # item"

definition join_items :: "nat list list \<Rightarrow> nat list" where
  \<comment> \<open>the first piece, then each piece that followed a \<^verbatim>\<open>%\<close>\<close>
  "join_items bits =
     (case bits of
        [] \<Rightarrow> []
      | first # items \<Rightarrow> first @ concat (map unquote_item items))"

definition unquote_impl :: "nat list \<Rightarrow> nat list" where
  \<comment> \<open>\<^verbatim>\<open>_unquote_impl\<close> on a run of ASCII characters\<close>
  "unquote_impl s = join_items (split_on 37 s)"

definition is_cont :: "nat \<Rightarrow> bool" where
  "is_cont b = (0x80 \<le> b \<and> b < 0xC0)"

definition second_ok3 :: "nat \<Rightarrow> nat \<Rightarrow> bool" where
  \<comment> \<open>second byte of a three-byte sequence: no overlong form, no surrogate\<close>
  "second_ok3 b b2 = (is_cont b2 \<and> \<not> (if b2 < 0xA0 then b = 0xE0 else b = 0xED))"

definition second_ok4 :: "nat \<Rightarrow> nat \<Rightarrow> bool" where
  \<comment> \<open>second byte of a four-byte sequence: no overlong form, nothing above \<open>0x10FFFF\<close>\<close>
  "second_ok4 b b2 = (is_cont b2 \<and> \<not> (if b2 < 0x90 then b = 0xF0 else b = 0xF4))"

text \<open>
  One step of \<^verbatim>\<open>bytes.decode('utf-8', 'replace')\<close> at the byte \<open>b\<close> followed by
  \<open>bs\<close>: the character produced and how many bytes of \<open>bs\<close> go with it. An invalid
  start byte, or a start byte with the valid continuation bytes after it when the
  sequence breaks off, becomes one U+FFFD; decoding resumes at the offending byte.
\<close>

definition utf8_step :: "nat \<Rightarrow> nat list \<Rightarrow> nat \<times> nat" where
  "utf8_step b bs =
     (if b < 0x80 then (b, 0)
      else if b < 0xC2 then (0xFFFD, 0)
      else if b < 0xE0 then
        (case bs of
           b2 # _ \<Rightarrow> if is_cont b2 then ((b - 0xC0) * 64 + (b2 - 0x80), 1) else (0xFFFD, 0)
         | [] \<Rightarrow> (0xFFFD, 0))
      else if b < 0xF0 then
        (case bs of
           b2 # b3 # _ \<Rightarrow>
             if \<not> second_ok3 b b2 then (0xFFFD, 0)
             else if \<not> is_cont b3 then (0xFFFD, 1)
             else ((b - 0xE0) * 4096 + (b2 - 0x80) * 64 + (b3 - 0x80), 2)
         | [b2] \<Rightarrow> if second_ok3 b b2 then (0xFFFD, 1) else (0xFFFD, 0)
         | [] \<Rightarrow> (0xFFFD, 0))
      else if b < 0xF5 then
        (case bs of
           b2 # b3 # b4 # _ \<Rightarrow>
             if \<not> second_ok4 b b2 then (0xFFFD, 0)
             else if \<not> is_cont b3 then (0xFFFD, 1)
             else if \<not> is_cont b4 then (0xFFFD, 2)
             else ((b - 0xF0) * 262144 + (b2 - 0x80) * 4096 + (b3 - 0x80) * 64 + (b4 - 0x80), 3)
         | [b2, b3] \<Rightarrow>
             if \<not> second_ok4 b b2 then (0xFFFD, 0)
             else if \<not> is_cont b3 then (0xFFFD, 1)
             else (0xFFFD, 2)
         | [b2] \<Rightarrow> if second_ok4 b b2 then (0xFFFD, 1) else (0xFFFD, 0)
         | [] \<Rightarrow> (0xFFFD, 0))
      else (0xFFFD, 0))"

fun utf8_decode :: "nat list \<Rightarrow> pystr" where
  "utf8_decode [] = []"
| "utf8_decode (b # bs) = (case utf8_step b bs of (c, k) \<Rightarrow> c # utf8_decode (drop k bs))"

text \<open>
  \<^verbatim>\<open>unquote\<close>: each maximal run of ASCII characters is unquoted to bytes and decoded,
  the characters between the runs are kept.
\<close>

function unquote_parts :: "pystr \<Rightarrow> pystr" where
  "unquote_parts [] = []"
| "unquote_parts (c # cs) =
     (if c < 128
      then utf8_decode (unquote_impl (c # takeWhile (\<lambda>x. x < 128) cs))
           @ unquote_parts (dropWhile (\<lambda>x. x < 128) cs)
      else c # unquote_parts cs)"
  by pat_completeness auto
termination
  by (relation "measure length") (auto simp: less_Suc_eq_le length_dropWhile_le)

definition unquote :: "pystr \<Rightarrow> pystr" where
  "unquote s = (if 37 \<notin> set s then s else unquote_parts s)"

section \<open>\<^verbatim>\<open>tiko_api.py\<close>: the API client\<close>

subsection \<open>The network\<close>

text \<open>
  What the client sends. The fixed headers and the GraphQL text are the same in every
  request and are left out; a request is its method, its URL, the \<^verbatim>\<open>Authorization\<close>
  header if there is one, and the operation with its variables (\<^verbatim>\<open>langCode\<close> and
  \<^verbatim>\<open>retainSession\<close> of \<^verbatim>\<open>LogIn\<close> are constants).
\<close>

datatype payload =
    NoBody
  | LogIn string pystr
  | GetRooms json
  | GetDevices json
  | SetRoomAdjustTemperature json int real
  | SetMode json string

record request =
  rq_method :: string
  rq_url :: string
  rq_authorization :: "string option"
  rq_payload :: payload

text \<open>
  What \<^verbatim>\<open>aiohttp\<close> does with a request. Its own exceptions are an
  \<^verbatim>\<open>aiohttp.ClientError\<close> (connection, payload, content type), a timeout, or a
  \<^verbatim>\<open>ValueError\<close> from decoding JSON, each with its text. A response has a status,
  the text of the \<^verbatim>\<open>ClientResponseError\<close> that \<^verbatim>\<open>raise_for_status\<close> raises for it,
  the \<^verbatim>\<open>Content-Type\<close> header if present, and what \<^verbatim>\<open>response.json()\<close> gives.
\<close>

datatype lib_error =
    AiohttpClientError string
  | AsyncioTimeoutError
  | JSONDecodeError string

fun lib_exn :: "lib_error \<Rightarrow> exn" where
  "lib_exn (AiohttpClientError t) = Exn ClientError t"
| "lib_exn AsyncioTimeoutError = Exn TimeoutError []"
| "lib_exn (JSONDecodeError t) = Exn ValueError t"

datatype reply =
    RequestFails lib_error
  | Response nat string "string option" "lib_error + json"

text \<open>
  The world outside: the \<open>n\<close>-th request sent gets the reply \<open>replies n\<close>; \<open>sent\<close> is
  the log of requests so far. When both fetches of an \<^verbatim>\<open>asyncio.gather\<close> fail, the one
  that fails first is raised: \<open>race n\<close> says whether that is the first of the two, for
  the gather that starts when \<open>n\<close> requests have been sent.
\<close>

record world =
  replies :: "nat \<Rightarrow> reply"
  sent :: "request list"
  race :: "nat \<Rightarrow> bool"

text \<open>The number of \<^verbatim>\<open>LogIn\<close> requests in the log.\<close>

definition is_login :: "request \<Rightarrow> bool" where
  "is_login rq = (case rq_payload rq of LogIn _ _ \<Rightarrow> True | _ \<Rightarrow> False)"

definition logins :: "world \<Rightarrow> nat" where
  "logins w = length (filter is_login (sent w))"

subsection \<open>\<^verbatim>\<open>TikoAPI\<close>\<close>

text \<open>
  The attributes \<^verbatim>\<open>token\<close>, \<^verbatim>\<open>user_id\<close> and \<^verbatim>\<open>property_id\<close> do not exist until
  \<^verbatim>\<open>authenticate\<close> assigns them: \<open>None\<close> is the missing attribute.
\<close>

record tiko_api =
  email :: string
  password :: pystr
  token :: "json option"
  user_id :: "json option"
  property_id :: "json option"
  authorization :: "string option"

definition base_url :: string where
  "base_url = ''https://particuliers-tiko.fr''"

definition url :: string where
  "url = base_url @ ''/api/v3/graphql/''"

definition TikoAPI :: "string \<Rightarrow> pystr \<Rightarrow> tiko_api result" where
  \<comment> \<open>\<^verbatim>\<open>TikoAPI.__init__\<close>\<close>
  "TikoAPI em pw =
     (case quote pw of
        Inl e \<Rightarrow> Inl e
      | Inr q \<Rightarrow> Inr \<lparr>email = em, password = q, token = None, user_id = None,
                      property_id = None, authorization = None\<rparr>)"

text \<open>The check of the application-level \<^verbatim>\<open>errors\<close> list in \<^verbatim>\<open>_make_request\<close>.\<close>

definition check_errors :: "(json \<Rightarrow> string) \<Rightarrow> json \<Rightarrow> json result" where
  "check_errors rp result =
     (case py_in ''errors'' result of
        Inl e \<Rightarrow> Inl e
      | Inr False \<Rightarrow> Inr result
      | Inr True \<Rightarrow>
         (case py_item result ''errors'' of Inl e \<Rightarrow> Inl e | Inr errs \<Rightarrow>
          (case py_first errs of Inl e \<Rightarrow> Inl e | Inr err0 \<Rightarrow>
           (case py_item err0 ''message'' of Inl e \<Rightarrow> Inl e | Inr error_msg \<Rightarrow>
            (case py_in ''Limite de taux atteinte'' error_msg of
               Inl e \<Rightarrow> Inl e
             | Inr True \<Rightarrow> Inl (Exn TikoRateLimitError (py_str rp error_msg))
             | Inr False \<Rightarrow>
                (case py_in ''Invalid credentials'' error_msg of
                   Inl e \<Rightarrow> Inl e
                 | Inr True \<Rightarrow> Inl (Exn TikoAuthenticationError (py_str rp error_msg))
                 | Inr False \<Rightarrow> Inl (Exn ClientError (py_str rp error_msg))))))))"

definition handle_reply :: "(json \<Rightarrow> string) \<Rightarrow> string \<Rightarrow> string \<Rightarrow> reply \<Rightarrow> json result" where
  \<comment> \<open>the body of \<^verbatim>\<open>_make_request\<close> once the request is out\<close>
  "handle_reply rp meth u r =
     (case r of
        RequestFails e \<Rightarrow> Inl (lib_exn e)
      | Response status status_text ctype body \<Rightarrow>
          if 400 \<le> status then Inl (Exn ClientError status_text)
          else if meth = ''GET'' \<and> u = base_url then Inr (JObj [])
          else
            let content_type = (case ctype of None \<Rightarrow> [] | Some c \<Rightarrow> c) in
            if \<not> is_substring ''application/json'' content_type
            then Inl (Exn ClientError (''Unexpected content type: '' @ content_type))
            else (case body of
                    Inl e \<Rightarrow> Inl (lib_exn e)
                  | Inr result \<Rightarrow> check_errors rp result))"

definition make_request ::
  "(json \<Rightarrow> string) \<Rightarrow> tiko_api \<Rightarrow> string \<Rightarrow> string \<Rightarrow> payload \<Rightarrow> world \<Rightarrow> json result \<times> world" where
  \<comment> \<open>\<^verbatim>\<open>TikoAPI._make_request\<close>\<close>
  "make_request rp a meth u body w =
     (handle_reply rp meth u (replies w (length (sent w))),
      w\<lparr>sent := sent w @ [\<lparr>rq_method = meth, rq_url = u,
                             rq_authorization = authorization a, rq_payload = body\<rparr>]\<rparr>)"

text \<open>
  The part of \<^verbatim>\<open>authenticate\<close> after the login reply has arrived. Each assignment to
  \<^verbatim>\<open>self\<close> happens when its right-hand side has been evaluated, so a failure later on
  leaves the earlier attributes set.
\<close>

definition login_result :: "(json \<Rightarrow> string) \<Rightarrow> tiko_api \<Rightarrow> json \<Rightarrow> unit result \<times> tiko_api" where
  "login_result rp a result =
     (case py_get result ''data'' (JObj []) of Inl e \<Rightarrow> (Inl e, a) | Inr d \<Rightarrow>
      (case py_get d ''logIn'' JNull of Inl e \<Rightarrow> (Inl e, a) | Inr l \<Rightarrow>
       if \<not> py_truthy l then (Inl (Exn TikoAuthenticationError ''Authentication failed''), a)
       else
       (case py_item result ''data'' of Inl e \<Rightarrow> (Inl e, a) | Inr d' \<Rightarrow>
        (case py_item d' ''logIn'' of Inl e \<Rightarrow> (Inl e, a) | Inr data \<Rightarrow>
         (case py_item data ''token'' of Inl e \<Rightarrow> (Inl e, a) | Inr tok \<Rightarrow>
          let a1 = a\<lparr>token := Some tok\<rparr> in
          (case py_item data ''user'' of Inl e \<Rightarrow> (Inl e, a1) | Inr usr \<Rightarrow>
           (case py_item usr ''id'' of Inl e \<Rightarrow> (Inl e, a1) | Inr uid \<Rightarrow>
            let a2 = a1\<lparr>user_id := Some uid\<rparr> in
            (case py_item data ''user'' of Inl e \<Rightarrow> (Inl e, a2) | Inr usr' \<Rightarrow>
             (case py_item usr' ''properties'' of Inl e \<Rightarrow> (Inl e, a2) | Inr props \<Rightarrow>
              (case py_first props of Inl e \<Rightarrow> (Inl e, a2) | Inr prop \<Rightarrow>
               (case py_item prop ''id'' of Inl e \<Rightarrow> (Inl e, a2) | Inr pid \<Rightarrow>
                let a3 = a2\<lparr>property_id := Some pid\<rparr>;
                    a4 = a3\<lparr>authorization := Some (''Token '' @ py_str rp tok)\<rparr> in
                (case py_slice tok of Inl e \<Rightarrow> (Inl e, a4) | Inr _ \<Rightarrow>
                 (Inr (), a4)))))))))))))"

definition authenticate :: "(json \<Rightarrow> string) \<Rightarrow> tiko_api \<Rightarrow> world \<Rightarrow> unit result \<times> tiko_api \<times> world" where
  "authenticate rp a w =
     (case make_request rp a ''GET'' base_url NoBody w of
        (Inl e, w1) \<Rightarrow> (Inl e, a, w1)
      | (Inr _, w1) \<Rightarrow>
         (case make_request rp a ''POST'' url (LogIn (email a) (unquote (password a))) w1 of
            (Inl e, w2) \<Rightarrow> (Inl e, a, w2)
          | (Inr result, w2) \<Rightarrow>
              (case login_result rp a result of (r, a') \<Rightarrow> (r, a', w2))))"

definition no_property_id :: exn where
  "no_property_id = Exn AttributeError
     (quoted ''TikoAPI'' @ '' object has no attribute '' @ quoted ''property_id'')"

definition get_rooms :: "(json \<Rightarrow> string) \<Rightarrow> tiko_api \<Rightarrow> world \<Rightarrow> json result \<times> world" where
  "get_rooms rp a w =
     (case property_id a of
        None \<Rightarrow> (Inl no_property_id, w)
      | Some pid \<Rightarrow> make_request rp a ''POST'' url (GetRooms pid) w)"

definition get_devices :: "(json \<Rightarrow> string) \<Rightarrow> tiko_api \<Rightarrow> world \<Rightarrow> json result \<times> world" where
  "get_devices rp a w =
     (case property_id a of
        None \<Rightarrow> (Inl no_property_id, w)
      | Some pid \<Rightarrow> make_request rp a ''POST'' url (GetDevices pid) w)"

definition api_set_temperature ::
  "(json \<Rightarrow> string) \<Rightarrow> tiko_api \<Rightarrow> int \<Rightarrow> real \<Rightarrow> world \<Rightarrow> json result \<times> world" where
  \<comment> \<open>\<^verbatim>\<open>TikoAPI.set_temperature\<close>\<close>
  "api_set_temperature rp a room_id temperature w =
     (case property_id a of
        None \<Rightarrow> (Inl no_property_id, w)
      | Some pid \<Rightarrow>
          make_request rp a ''POST'' url (SetRoomAdjustTemperature pid room_id temperature) w)"

definition set_heating_mode ::
  "(json \<Rightarrow> string) \<Rightarrow> tiko_api \<Rightarrow> string \<Rightarrow> world \<Rightarrow> json result \<times> world" where
  "set_heating_mode rp a mode w =
     (case property_id a of
        None \<Rightarrow> (Inl no_property_id, w)
      | Some pid \<Rightarrow> make_request rp a ''POST'' url (SetMode pid mode) w)"

section \<open>\<^verbatim>\<open>coordinator.py\<close>: the update coordinator\<close>

text \<open>
  \<open>rooms\<close> and \<open>devices\<close> are the attributes that the climate entities read. The
  base class \<^verbatim>\<open>DataUpdateCoordinator\<close> belongs to Home Assistant; of its state the
  model keeps \<open>data\<close> (the value last returned by a cycle), \<open>last_update_success\<close>
  and a count of the refreshes requested.
\<close>

record snapshot =
  snap_rooms :: "string \<rightharpoonup> json"
  snap_devices :: "string \<rightharpoonup> json"

record coordinator =
  api :: tiko_api
  rooms :: "string \<rightharpoonup> json"
  devices :: "string \<rightharpoonup> json"
  data :: "snapshot option"
  last_update_success :: bool
  refresh_requests :: nat

definition TikoUpdateCoordinator :: "string \<Rightarrow> pystr \<Rightarrow> coordinator result" where
  \<comment> \<open>\<^verbatim>\<open>TikoUpdateCoordinator.__init__\<close>\<close>
  "TikoUpdateCoordinator em pw =
     (case TikoAPI em pw of
        Inl e \<Rightarrow> Inl e
      | Inr a \<Rightarrow> Inr \<lparr>api = a, rooms = Map.empty, devices = Map.empty, data = None,
                      last_update_success = True, refresh_requests = 0\<rparr>)"

text \<open>
  \<^verbatim>\<open>asyncio.gather\<close> of two calls: both run; the pair of results if both return,
  otherwise the exception that comes first.
\<close>

fun gather :: "bool \<Rightarrow> 'a result \<Rightarrow> 'b result \<Rightarrow> ('a \<times> 'b) result" where
  "gather first (Inr x) (Inr y) = Inr (x, y)"
| "gather first (Inl e) (Inr y) = Inl e"
| "gather first (Inr x) (Inl e) = Inl e"
| "gather first (Inl e1) (Inl e2) = Inl (if first then e1 else e2)"

definition fetch_both ::
  "(json \<Rightarrow> string) \<Rightarrow> tiko_api \<Rightarrow> world \<Rightarrow> (json \<times> json) result \<times> world" where
  \<comment> \<open>\<^verbatim>\<open>await asyncio.gather(self.api.get_rooms(), self.api.get_devices())\<close>\<close>
  "fetch_both rp a w =
     (case get_rooms rp a w of (r1, w1) \<Rightarrow>
      (case get_devices rp a w1 of (r2, w2) \<Rightarrow>
        (gather (race w (length (sent w))) r1 r2, w2)))"

text \<open>The dict comprehension \<^verbatim>\<open>{str(x["id"]): x for x in xs}\<close>.\<close>

fun collect ::
  "(json \<Rightarrow> string) \<Rightarrow> (string \<rightharpoonup> json) \<Rightarrow> json list \<Rightarrow> (string \<rightharpoonup> json) result" where
  "collect rp m [] = Inr m"
| "collect rp m (x # xs) =
     (case py_item x ''id'' of
        Inl e \<Rightarrow> Inl e
      | Inr i \<Rightarrow> collect rp (m(py_str rp i \<mapsto> x)) xs)"

definition has_property :: "json \<Rightarrow> bool result" where
  \<comment> \<open>\<^verbatim>\<open>"data" in result and "property" in result["data"]\<close>\<close>
  "has_property result =
     (case py_in ''data'' result of
        Inl e \<Rightarrow> Inl e
      | Inr False \<Rightarrow> Inr False
      | Inr True \<Rightarrow>
          (case py_item result ''data'' of Inl e \<Rightarrow> Inl e | Inr d \<Rightarrow> py_in ''property'' d))"

definition process ::
  "(json \<Rightarrow> string) \<Rightarrow> string \<Rightarrow> string \<Rightarrow> json \<Rightarrow> (string \<rightharpoonup> json) result" where
  "process rp coll invalid result =
     (case has_property result of
        Inl e \<Rightarrow> Inl e
      | Inr False \<Rightarrow> Inl (Exn UpdateFailed invalid)
      | Inr True \<Rightarrow>
         (case py_item result ''data'' of Inl e \<Rightarrow> Inl e | Inr d \<Rightarrow>
          (case py_item d ''property'' of Inl e \<Rightarrow> Inl e | Inr prop \<Rightarrow>
           (case py_item prop coll of Inl e \<Rightarrow> Inl e | Inr xs \<Rightarrow>
            (case py_iter xs of Inl e \<Rightarrow> Inl e | Inr items \<Rightarrow>
               collect rp Map.empty items)))))"

definition process_rooms :: "(json \<Rightarrow> string) \<Rightarrow> json \<Rightarrow> (string \<rightharpoonup> json) result" where
  "process_rooms rp rooms_result = process rp ''rooms'' ''Invalid rooms response'' rooms_result"

definition process_devices :: "(json \<Rightarrow> string) \<Rightarrow> json \<Rightarrow> (string \<rightharpoonup> json) result" where
  "process_devices rp devices_result =
     process rp ''devices'' ''Invalid devices response'' devices_result"

text \<open>
  A reply that carries a collection the way the service sends it: an object with
  \<^verbatim>\<open>data\<close>, in it \<^verbatim>\<open>property\<close>, in it the collection as a list of objects that each
  have an \<^verbatim>\<open>id\<close>. Such a reply passes \<open>process\<close>.
\<close>

definition has_id :: "json \<Rightarrow> bool" where
  "has_id x = (case x of JObj kvs \<Rightarrow> dict_lookup kvs ''id'' \<noteq> None | _ \<Rightarrow> False)"

definition well_formed :: "string \<Rightarrow> json \<Rightarrow> bool" where
  "well_formed coll result =
     (case result of
        JObj kvs \<Rightarrow>
          (case dict_lookup kvs ''data'' of
             Some (JObj d) \<Rightarrow>
               (case dict_lookup d ''property'' of
                  Some (JObj p) \<Rightarrow>
                    (case dict_lookup p coll of
                       Some (JList xs) \<Rightarrow> list_all has_id xs
                     | _ \<Rightarrow> False)
                | _ \<Rightarrow> False)
           | _ \<Rightarrow> False)
      | _ \<Rightarrow> False)"

text \<open>
  The body of \<^verbatim>\<open>_async_update_data\<close> in three parts: authenticate if there is no
  token; fetch, with one re-authentication and one retry when the text of the failure
  contains \<^verbatim>\<open>Authentication failed\<close>; store and return the two maps.
\<close>

definition ensure_authenticated ::
  "(json \<Rightarrow> string) \<Rightarrow> coordinator \<Rightarrow> world \<Rightarrow> unit result \<times> coordinator \<times> world" where
  "ensure_authenticated rp c w =
     (case token (api c) of
        Some _ \<Rightarrow> (Inr (), c, w)
      | None \<Rightarrow>
          (case authenticate rp (api c) w of
             (Inl err, a, w1) \<Rightarrow> (Inl (Exn ConfigEntryAuthFailed []), c\<lparr>api := a\<rparr>, w1)
           | (Inr _, a, w1) \<Rightarrow> (Inr (), c\<lparr>api := a\<rparr>, w1)))"

definition fetch_with_retry ::
  "(json \<Rightarrow> string) \<Rightarrow> coordinator \<Rightarrow> world \<Rightarrow> (json \<times> json) result \<times> coordinator \<times> world" where
  "fetch_with_retry rp c w =
     (case fetch_both rp (api c) w of
        (Inr res, w1) \<Rightarrow> (Inr res, c, w1)
      | (Inl err, w1) \<Rightarrow>
          if \<not> is_substring ''Authentication failed'' (msg err) then (Inl err, c, w1)
          else
            (case authenticate rp (api c) w1 of
               (Inl e, a, w2) \<Rightarrow> (Inl e, c\<lparr>api := a\<rparr>, w2)
             | (Inr _, a, w2) \<Rightarrow>
                 (case fetch_both rp a w2 of (r, w3) \<Rightarrow> (r, c\<lparr>api := a\<rparr>, w3))))"

definition store_results ::
  "(json \<Rightarrow> string) \<Rightarrow> coordinator \<Rightarrow> json \<times> json \<Rightarrow> snapshot result \<times> coordinator" where
  "store_results rp c res =
     (case res of (rooms_result, devices_result) \<Rightarrow>
      (case process_rooms rp rooms_result of
         Inl e \<Rightarrow> (Inl e, c)
       | Inr rs \<Rightarrow>
          let c1 = c\<lparr>rooms := rs\<rparr> in
          (case process_devices rp devices_result of
             Inl e \<Rightarrow> (Inl e, c1)
           | Inr ds \<Rightarrow>
              let c2 = c1\<lparr>devices := ds\<rparr> in
              (Inr \<lparr>snap_rooms = rooms c2, snap_devices = devices c2\<rparr>, c2))))"

definition update_body ::
  "(json \<Rightarrow> string) \<Rightarrow> coordinator \<Rightarrow> world \<Rightarrow> snapshot result \<times> coordinator \<times> world" where
  "update_body rp c w =
     (case ensure_authenticated rp c w of
        (Inl e, c1, w1) \<Rightarrow> (Inl e, c1, w1)
      | (Inr _, c1, w1) \<Rightarrow>
          (case fetch_with_retry rp c1 w1 of
             (Inl e, c2, w2) \<Rightarrow> (Inl e, c2, w2)
           | (Inr res, c2, w2) \<Rightarrow>
               (case store_results rp c2 res of (r, c3) \<Rightarrow> (r, c3, w2))))"

definition reraise :: "exn \<Rightarrow> exn" where
  \<comment> \<open>the two \<^verbatim>\<open>except\<close> clauses around the body\<close>
  "reraise err =
     (if cls err = ConfigEntryAuthFailed then err
      else Exn UpdateFailed (''Error communicating with API: '' @ msg err))"

definition async_update_data ::
  "(json \<Rightarrow> string) \<Rightarrow> coordinator \<Rightarrow> world \<Rightarrow> snapshot result \<times> coordinator \<times> world" where
  \<comment> \<open>\<^verbatim>\<open>TikoUpdateCoordinator._async_update_data\<close>\<close>
  "async_update_data rp c w =
     (case update_body rp c w of
        (Inl err, c', w') \<Rightarrow> (Inl (reraise err), c', w')
      | (Inr snap, c', w') \<Rightarrow> (Inr snap, c', w'))"

text \<open>
  \<^verbatim>\<open>async_request_refresh\<close> is Home Assistant's: it has the coordinator run a cycle,
  keeps the value returned, and reports a failed cycle through \<open>last_update_success\<close>
  without raising. Its debouncing in time is left out: the cycle runs at once.
\<close>

definition async_request_refresh ::
  "(json \<Rightarrow> string) \<Rightarrow> coordinator \<Rightarrow> world \<Rightarrow> coordinator \<times> world" where
  "async_request_refresh rp c w =
     (case async_update_data rp (c\<lparr>refresh_requests := Suc (refresh_requests c)\<rparr>) w of
        (Inl err, c', w') \<Rightarrow> (c'\<lparr>last_update_success := False\<rparr>, w')
      | (Inr snap, c', w') \<Rightarrow> (c'\<lparr>data := Some snap, last_update_success := True\<rparr>, w'))"

text \<open>
  The two commands. \<^verbatim>\<open>int(room_id)\<close> is Python's builtin, the parameter \<open>to_int\<close>.
  The \<^verbatim>\<open>except\<close> clause logs and raises the same exception again.
\<close>

definition set_temperature ::
  "(json \<Rightarrow> string) \<Rightarrow> (string \<Rightarrow> int result) \<Rightarrow> coordinator \<Rightarrow> string \<Rightarrow> real \<Rightarrow> world
     \<Rightarrow> unit result \<times> coordinator \<times> world" where
  \<comment> \<open>\<^verbatim>\<open>TikoUpdateCoordinator.set_temperature\<close>\<close>
  "set_temperature rp to_int c room_id temperature w =
     (case to_int room_id of
        Inl err \<Rightarrow> (Inl err, c, w)
      | Inr n \<Rightarrow>
          (case api_set_temperature rp (api c) n temperature w of
             (Inl err, w1) \<Rightarrow> (Inl err, c, w1)
           | (Inr _, w1) \<Rightarrow>
               (case async_request_refresh rp c w1 of (c2, w2) \<Rightarrow> (Inr (), c2, w2))))"

definition set_mode ::
  "(json \<Rightarrow> string) \<Rightarrow> coordinator \<Rightarrow> string \<Rightarrow> world \<Rightarrow> unit result \<times> coordinator \<times> world" where
  \<comment> \<open>\<^verbatim>\<open>TikoUpdateCoordinator.set_mode\<close>\<close>
  "set_mode rp c mode w =
     (case set_heating_mode rp (api c) mode w of
        (Inl err, w1) \<Rightarrow> (Inl err, c, w1)
      | (Inr _, w1) \<Rightarrow>
          (case async_request_refresh rp c w1 of (c2, w2) \<Rightarrow> (Inr (), c2, w2)))"

section \<open>\<^verbatim>\<open>climate.py\<close>: what an entity shows of a room\<close>

datatype hvac_action = HEATING | IDLE

fun hvac_action_value :: "hvac_action \<Rightarrow> string" where
  \<comment> \<open>the values of Home Assistant's enum \<^verbatim>\<open>HVACAction\<close>\<close>
  "hvac_action_value HEATING = ''heating''"
| "hvac_action_value IDLE = ''idle''"

definition room_data :: "coordinator \<Rightarrow> string \<Rightarrow> json" where
  "room_data c room_id = (case rooms c room_id of None \<Rightarrow> JObj [] | Some r \<Rightarrow> r)"

definition current_temperature :: "coordinator \<Rightarrow> string \<Rightarrow> json result" where
  "current_temperature c room_id = py_get (room_data c room_id) ''currentTemperatureDegrees'' JNull"

definition target_temperature :: "coordinator \<Rightarrow> string \<Rightarrow> json result" where
  "target_temperature c room_id = py_get (room_data c room_id) ''targetTemperatureDegrees'' JNull"

definition hvac_action :: "coordinator \<Rightarrow> string \<Rightarrow> hvac_action result" where
  "hvac_action c room_id =
     (case py_get (room_data c room_id) ''status'' (JObj []) of
        Inl e \<Rightarrow> Inl e
      | Inr st \<Rightarrow>
          (case py_get st ''heatingOperating'' JNull of
             Inl e \<Rightarrow> Inl e
           | Inr v \<Rightarrow> Inr (if py_truthy v then HEATING else IDLE)))"

section \<open>Concrete replies and states\<close>

text \<open>
  Values for running the definitions: a \<^verbatim>\<open>repr\<close> that prints nothing, a world that
  answers from a list of replies (and times out afterwards), the replies of a service
  with one property, and a coordinator as the constructor leaves it.
\<close>

definition no_repr :: "json \<Rightarrow> string" where
  "no_repr v = []"

definition ok_json :: "json \<Rightarrow> reply" where
  "ok_json j = Response 200 ''OK'' (Some ''application/json'') (Inr j)"

definition script :: "reply list \<Rightarrow> world" where
  "script rs =
     \<lparr>replies = (\<lambda>n. if n < length rs then rs ! n else RequestFails AsyncioTimeoutError),
      sent = [], race = (\<lambda>n. True)\<rparr>"

definition login_ok :: reply where
  "login_ok = ok_json (JObj [(''data'', JObj [(''logIn'', JObj
     [(''token'', JStr ''t0k3n''),
      (''user'', JObj [(''id'', JInt 1), (''properties'', JList [JObj [(''id'', JInt 7)]])])])])])"

definition lounge :: json where
  "lounge = JObj [(''id'', JInt 42), (''name'', JStr ''Lounge''),
     (''currentTemperatureDegrees'', JFloat 19.5), (''targetTemperatureDegrees'', JFloat 21.0),
     (''status'', JObj [(''heatingOperating'', JBool True)])]"

definition rooms_reply :: "json list \<Rightarrow> reply" where
  "rooms_reply rs =
     ok_json (JObj [(''data'', JObj [(''property'', JObj [(''rooms'', JList rs)])])])"

definition devices_reply :: "json list \<Rightarrow> reply" where
  "devices_reply ds =
     ok_json (JObj [(''data'', JObj [(''property'', JObj [(''devices'', JList ds)])])])"

definition rate_limited :: reply where
  "rate_limited = ok_json
     (JObj [(''errors'', JList [JObj [(''message'', JStr ''Limite de taux atteinte'')]])])"

definition devices_without_property :: reply where
  "devices_without_property = ok_json (JObj [(''data'', JObj [])])"

definition new_api :: tiko_api where
  "new_api = \<lparr>email = ''user@example.org'', password = ascii ''secret'', token = None,
               user_id = None, property_id = None, authorization = None\<rparr>"

definition new_coordinator :: coordinator where
  "new_coordinator =
     \<lparr>api = new_api, rooms = Map.empty, devices = Map.empty, data = None,
      last_update_success = True, refresh_requests = 0\<rparr>"

definition heater :: json where
  "heater = JObj [(''id'', JInt 9), (''code'', JStr ''H1''), (''type'', JStr ''heater''),
     (''name'', JStr ''Radiator''), (''mac'', JStr ''00:11:22:33:44:55'')]"

definition kitchen :: json where
  "kitchen = JObj [(''id'', JInt 43), (''name'', JStr ''Kitchen''),
     (''currentTemperatureDegrees'', JFloat 18.0), (''targetTemperatureDegrees'', JFloat 20.0),
     (''status'', JObj [(''heatingOperating'', JBool False)])]"

definition login_no_properties :: reply where
  "login_no_properties = ok_json (JObj [(''data'', JObj [(''logIn'', JObj
     [(''token'', JStr ''t0k3n''),
      (''user'', JObj [(''id'', JInt 1), (''properties'', JList [])])])])])"

definition token_rejected :: reply where
  "token_rejected = ok_json
     (JObj [(''errors'', JList [JObj [(''message'', JStr ''Authentication failed'')]])])"

definition unreachable :: reply where
  "unreachable = RequestFails (AiohttpClientError ''Cannot connect to host'')"

definition server_error :: reply where
  "server_error = Response 500 ''500, message=Internal Server Error'' (Some ''text/html'')
     (Inl (AiohttpClientError ''unexpected mimetype''))"

definition logged_in_api :: tiko_api where
  "logged_in_api = new_api\<lparr>token := Some (JStr ''t0k3n''), user_id := Some (JInt 1),
     property_id := Some (JInt 7), authorization := Some ''Token t0k3n''\<rparr>"

definition running_coordinator :: coordinator where
  "running_coordinator =
     \<lparr>api = logged_in_api, rooms = [''42'' \<mapsto> lounge], devices = [''9'' \<mapsto> heater],
      data = Some \<lparr>snap_rooms = [''42'' \<mapsto> lounge], snap_devices = [''9'' \<mapsto> heater]\<rparr>,
      last_update_success = True, refresh_requests = 0\<rparr>"

text \<open>Python's \<^verbatim>\<open>int\<close> on a string of ASCII digits, for the runs of \<open>set_temperature\<close>.\<close>

definition digits_int :: "string \<Rightarrow> int result" where
  "digits_int s =
     (if s \<noteq> [] \<and> list_all (\<lambda>c. c \<in> set ''0123456789'') s
      then Inr (foldl (\<lambda>n c. 10 * n + (int (of_char c) - 48)) 0 s)
      else Inl (Exn ValueError ''invalid literal for int() with base 10''))"

text \<open>A password with a percent sign, a space, a slash and characters of two, three and four bytes.\<close>

definition odd_password :: pystr where
  "odd_password = ascii ''p%41 /'' @ [0xE9, 0x20AC, 0x1F600]"

section \<open>Properties\<close>

lemmas mode_defs =
  MODE_NORMAL_def MODE_OFF_def MODE_FROST_def MODE_ABSENCE_def HA_MODE_MAP_items_def
  HA_MODE_MAP_def TIKO_MODE_MAP_def dict_of_def dict_item_def mode_round_trip_def quoted_def

lemmas scenario_defs =
  no_repr_def ok_json_def script_def login_ok_def lounge_def rooms_reply_def devices_reply_def
  rate_limited_def new_api_def new_coordinator_def heater_def kitchen_def
  login_no_properties_def token_rejected_def unreachable_def server_error_def
  logged_in_api_def running_coordinator_def devices_without_property_def

lemmas py_defs =
  dict_lookup_def quoted_def string_of_int_def string_of_nat.simps digit_char_def

lemmas api_defs =
  make_request_def handle_reply_def check_errors_def login_result_def authenticate_def
  get_rooms_def get_devices_def base_url_def url_def no_property_id_def
  api_set_temperature_def set_heating_mode_def

lemmas coordinator_defs =
  fetch_both_def has_property_def process_def process_rooms_def process_devices_def
  ensure_authenticated_def fetch_with_retry_def store_results_def update_body_def
  reraise_def async_update_data_def async_request_refresh_def

lemma unquote_secret: "unquote (ascii ''secret'') = ascii ''secret''"
  by (simp add: unquote_def ascii_def)

lemma new_coordinator_constructed:
  "TikoUpdateCoordinator ''user@example.org'' (ascii ''secret'') = Inr new_coordinator"
  by (simp add: TikoUpdateCoordinator_def TikoAPI_def quote_def utf8_encode_def utf8_char_def
      is_surrogate_def ascii_def quote_from_bytes_def is_safe_def always_safe_def
      new_coordinator_def new_api_def)

subsection \<open>\<^verbatim>\<open>quote\<close> and \<^verbatim>\<open>unquote\<close>\<close>

text \<open>
  Unquoting undoes quoting on bytes, and decoding undoes encoding on the characters
  that UTF-8 can encode: every code point that is not a surrogate.
\<close>

lemma below_16: "n < 16 \<Longrightarrow> n \<in> {0, 1, 2, 3, 4, 5, 6, 7, 8, 9, 10, 11, 12, 13, 14, 15::nat}"
  by simp arith

lemma hex_upper_unhex: "n < 16 \<Longrightarrow> unhex (hex_upper n) = Some n \<and> hex_upper n \<noteq> 37"
  by (drule below_16) (auto simp: hex_upper_def unhex_def ascii_def)

lemma split_on_not_Nil: "split_on d s \<noteq> []"
  by (induction s) (auto split: list.splits)

lemma split_on_Cons_other:
  "c \<noteq> d \<Longrightarrow> split_on d (c # s) = (c # hd (split_on d s)) # tl (split_on d s)"
  using split_on_not_Nil [of d s] by (cases "split_on d s") auto

lemma unquote_impl_join: "unquote_impl s = join_items (split_on 37 s)"
  by (simp add: unquote_impl_def)

lemma join_split_Cons_other:
  "c \<noteq> 37 \<Longrightarrow> join_items (split_on 37 (c # s)) = c # join_items (split_on 37 s)"
  using split_on_not_Nil [of 37 s]
  by (cases "split_on 37 s") (auto simp: join_items_def)

lemma safe_not_percent: "is_safe b \<Longrightarrow> b \<noteq> 37"
  by (auto simp: is_safe_def always_safe_def ascii_def)

lemma safe_ascii: "is_safe b \<Longrightarrow> b < 128"
  by (auto simp: is_safe_def always_safe_def ascii_def)

lemma join_split_quoted_byte:
  assumes "b < 256"
  shows "join_items (split_on 37 (quoter b @ s)) = b # join_items (split_on 37 s)"
proof (cases "is_safe b")
  case True
  then show ?thesis
    by (simp add: quoter_def join_split_Cons_other safe_not_percent del: split_on.simps)
next
  case False
  let ?h = "hex_upper (b div 16)" and ?l = "hex_upper (b mod 16)"
  have hi: "unhex ?h = Some (b div 16)" "?h \<noteq> 37"
    using assms hex_upper_unhex [of "b div 16"] by auto
  have lo: "unhex ?l = Some (b mod 16)" "?l \<noteq> 37"
    using hex_upper_unhex [of "b mod 16"] by auto
  have "split_on 37 (?h # ?l # s) = (?h # ?l # hd (split_on 37 s)) # tl (split_on 37 s)"
    using hi(2) lo(2) by (simp add: split_on_Cons_other del: split_on.simps)
  then have "join_items (split_on 37 (37 # ?h # ?l # s))
      = unquote_item (?h # ?l # hd (split_on 37 s)) @ concat (map unquote_item (tl (split_on 37 s)))"
    by (simp add: join_items_def)
  also have "\<dots> = b # hd (split_on 37 s) @ concat (map unquote_item (tl (split_on 37 s)))"
    using hi(1) lo(1) by simp
  also have "\<dots> = b # join_items (split_on 37 s)"
    using split_on_not_Nil [of 37 s] by (cases "split_on 37 s") (auto simp: join_items_def)
  finally show ?thesis
    using False by (simp add: quoter_def)
qed

lemma unquote_impl_quoted:
  "list_all (\<lambda>b. b < 256) bs \<Longrightarrow> unquote_impl (concat (map quoter bs)) = bs"
proof (induction bs)
  case Nil
  show ?case
    by (simp add: unquote_impl_join join_items_def)
next
  case (Cons b bs)
  then show ?case
    by (simp add: unquote_impl_join join_split_quoted_byte del: split_on.simps)
qed


lemma utf8_char_bytes: "c < 0x110000 \<Longrightarrow> list_all (\<lambda>b. b < 256) (utf8_char c)"
  by (simp add: utf8_char_def) arith

lemma utf8_decode_1: "c < 0x80 \<Longrightarrow> utf8_decode (utf8_char c @ bs) = c # utf8_decode bs"
  by (simp add: utf8_char_def utf8_step_def)

lemma utf8_decode_2:
  assumes "0x80 \<le> c" "c < 0x800"
  shows "utf8_decode (utf8_char c @ bs) = c # utf8_decode bs"
proof -
  let ?b = "0xC0 + c div 64" and ?b2 = "0x80 + c mod 64"
  have "0xC2 \<le> ?b" "?b < 0xE0" "is_cont ?b2" "(?b - 0xC0) * 64 + (?b2 - 0x80) = c"
    using assms by (simp_all add: is_cont_def)
  then have "utf8_step ?b (?b2 # bs) = (c, 1)"
    by (simp add: utf8_step_def)
  then show ?thesis
    using assms by (simp add: utf8_char_def)
qed

lemma second_of_three: "(c::nat) div 64 mod 64 = c mod 4096 div 64"
  using mod_mult2_eq [of c 64 64] by simp

lemma second_of_four: "(c::nat) div 4096 mod 64 = c mod 262144 div 4096"
  using mod_mult2_eq [of c 4096 64] by simp

lemma three_bytes_value: "(c::nat) div 4096 * 4096 + c div 64 mod 64 * 64 + c mod 64 = c"
  using mod_mult2_eq [of c 64 64] div_mult_mod_eq [of c 4096] by simp

lemma four_bytes_value: "(c::nat) div 262144 * 262144 + c div 4096 mod 64 * 4096 + c div 64 mod 64 * 64 + c mod 64 = c"
  using mod_mult2_eq [of c 64 64] mod_mult2_eq [of c 4096 64] div_mult_mod_eq [of c 262144] by simp


lemma second_ok3_encoded:
  assumes "0x800 \<le> c" "c < 0x10000" "\<not> is_surrogate c"
  shows "second_ok3 (0xE0 + c div 4096) (0x80 + c div 64 mod 64)"
proof -
  define q r where "q = c div 4096" and "r = c mod 4096"
  have c: "c = 4096 * q + r" and r: "r < 4096"
    by (simp_all add: q_def r_def)
  have low: "q = 0 \<longrightarrow> 32 \<le> r div 64"
    using assms(1) c by auto
  have high: "q = 13 \<longrightarrow> r div 64 < 32"
    using assms(3) c r by (auto simp: is_surrogate_def)
  have "r div 64 < 64"
    using r by simp
  with low high show ?thesis
    unfolding second_ok3_def is_cont_def second_of_three q_def [symmetric] r_def [symmetric]
    by auto
qed

lemma second_ok4_encoded:
  assumes "0x10000 \<le> c" "c < 0x110000"
  shows "second_ok4 (0xF0 + c div 262144) (0x80 + c div 4096 mod 64)"
proof -
  define q r where "q = c div 262144" and "r = c mod 262144"
  have c: "c = 262144 * q + r" and r: "r < 262144"
    by (simp_all add: q_def r_def)
  have low: "q = 0 \<longrightarrow> 16 \<le> r div 4096"
    using assms(1) c by auto
  have high: "q = 4 \<longrightarrow> r div 4096 < 16"
    using assms(2) c by auto
  have "r div 4096 < 64"
    using r by simp
  with low high show ?thesis
    unfolding second_ok4_def is_cont_def second_of_four q_def [symmetric] r_def [symmetric]
    by auto
qed


lemma utf8_decode_3:
  assumes "0x800 \<le> c" "c < 0x10000" "\<not> is_surrogate c"
  shows "utf8_decode (utf8_char c @ bs) = c # utf8_decode bs"
proof -
  let ?b = "0xE0 + c div 4096" and ?b2 = "0x80 + c div 64 mod 64" and ?b3 = "0x80 + c mod 64"
  have range: "\<not> ?b < 0xE0" "?b < 0xF0"
    using assms by simp_all
  have third: "is_cont ?b3"
    by (simp add: is_cont_def)
  have val: "(?b - 0xE0) * 4096 + (?b2 - 0x80) * 64 + (?b3 - 0x80) = c"
    using three_bytes_value [of c] by simp
  have "utf8_step ?b (?b2 # ?b3 # bs) = (c, 2)"
    unfolding utf8_step_def using range second_ok3_encoded [OF assms] third val by simp
  then show ?thesis
    using assms by (simp add: utf8_char_def)
qed

lemma utf8_decode_4:
  assumes "0x10000 \<le> c" "c < 0x110000"
  shows "utf8_decode (utf8_char c @ bs) = c # utf8_decode bs"
proof -
  let ?b = "0xF0 + c div 262144" and ?b2 = "0x80 + c div 4096 mod 64"
    and ?b3 = "0x80 + c div 64 mod 64" and ?b4 = "0x80 + c mod 64"
  have range: "\<not> ?b < 0xF0" "?b < 0xF5"
    using assms by simp_all
  have others: "is_cont ?b3" "is_cont ?b4"
    by (simp_all add: is_cont_def)
  have val: "(?b - 0xF0) * 262144 + (?b2 - 0x80) * 4096 + (?b3 - 0x80) * 64 + (?b4 - 0x80) = c"
    using four_bytes_value [of c] by simp
  have "utf8_step ?b (?b2 # ?b3 # ?b4 # bs) = (c, 3)"
    unfolding utf8_step_def using range second_ok4_encoded [OF assms] others val by simp
  then show ?thesis
    using assms by (simp add: utf8_char_def)
qed

lemma utf8_decode_char:
  assumes "c < 0x110000" "\<not> is_surrogate c"
  shows "utf8_decode (utf8_char c @ bs) = c # utf8_decode bs"
proof -
  consider "c < 0x80" | "0x80 \<le> c" "c < 0x800" | "0x800 \<le> c" "c < 0x10000" | "0x10000 \<le> c"
    by linarith
  then show ?thesis
    using assms by cases (simp_all add: utf8_decode_1 utf8_decode_2 utf8_decode_3 utf8_decode_4)
qed


lemma utf8_encode_from_ok:
  "list_all (\<lambda>c. \<not> is_surrogate c) p \<Longrightarrow> utf8_encode_from i p = Inr (concat (map utf8_char p))"
  by (induction p arbitrary: i) auto

lemma utf8_encode_from_fails:
  "\<not> list_all (\<lambda>c. \<not> is_surrogate c) p \<Longrightarrow>
     \<exists>e. utf8_encode_from i p = Inl e \<and> cls e = UnicodeEncodeError"
proof (induction p arbitrary: i)
  case Nil
  then show ?case
    by simp
next
  case (Cons c cs)
  show ?case
  proof (cases "is_surrogate c")
    case True
    then show ?thesis
      by (simp add: surrogate_error_def)
  next
    case False
    with Cons.prems have "\<not> list_all (\<lambda>c. \<not> is_surrogate c) cs"
      by simp
    from Cons.IH [OF this, of "Suc i"] False show ?thesis
      by auto
  qed
qed

lemma utf8_bytes: "is_pystr p \<Longrightarrow> list_all (\<lambda>b. b < 256) (concat (map utf8_char p))"
  by (induction p) (auto simp: is_pystr_def utf8_char_bytes)

lemma utf8_decode_encoded:
  "is_pystr p \<Longrightarrow> list_all (\<lambda>c. \<not> is_surrogate c) p \<Longrightarrow>
     utf8_decode (concat (map utf8_char p)) = p"
  by (induction p) (auto simp: is_pystr_def utf8_decode_char)

lemma utf8_decode_ascii: "list_all (\<lambda>b. b < 128) bs \<Longrightarrow> utf8_decode bs = bs"
  by (induction bs) (auto simp: utf8_step_def)

lemma quote_from_bytes_map: "quote_from_bytes bs = concat (map quoter bs)"
proof -
  have "concat (map quoter bs) = bs" if "list_all is_safe bs"
    using that by (induction bs) (auto simp: quoter_def)
  moreover have "list_all is_safe bs" if "rev (dropWhile is_safe (rev bs)) = []"
    using that by (simp add: list_all_iff)
  ultimately show ?thesis
    by (auto simp: quote_from_bytes_def)
qed

lemma hex_upper_ascii: "n < 16 \<Longrightarrow> hex_upper n < 128"
  by (drule below_16) (auto simp: hex_upper_def ascii_def)

lemma quoter_ascii: "b < 256 \<Longrightarrow> list_all (\<lambda>x. x < 128) (quoter b)"
  using hex_upper_ascii [of "b div 16"] hex_upper_ascii [of "b mod 16"]
  by (auto simp: quoter_def safe_ascii)

lemma quoted_ascii:
  "list_all (\<lambda>b. b < 256) bs \<Longrightarrow> list_all (\<lambda>x. x < 128) (concat (map quoter bs))"
  by (induction bs) (auto simp: quoter_ascii)

lemma no_percent_all_safe:
  "37 \<notin> set (concat (map quoter bs)) \<Longrightarrow> list_all is_safe bs"
  by (induction bs) (auto simp: quoter_def split: if_splits)

lemma unquote_parts_ascii:
  assumes "list_all (\<lambda>x. x < 128) s"
  shows "unquote_parts s = utf8_decode (unquote_impl s)"
proof (cases s)
  case Nil
  then show ?thesis
    by (simp add: unquote_impl_join join_items_def)
next
  case (Cons c cs)
  with assms have run: "takeWhile (\<lambda>x. x < 128) cs = cs" "dropWhile (\<lambda>x. x < 128) cs = []"
    and c: "c < 128"
    by (simp_all add: list_all_iff)
  show ?thesis
    unfolding Cons by (simp add: run c)
qed

lemma unquote_quoted:
  assumes "list_all (\<lambda>b. b < 256) bs"
  shows "unquote (concat (map quoter bs)) = utf8_decode bs"
proof (cases "37 \<in> set (concat (map quoter bs))")
  case True
  then show ?thesis
    using assms by (simp add: unquote_def unquote_parts_ascii quoted_ascii unquote_impl_quoted)
next
  case False
  then have safe: "list_all is_safe bs"
    by (rule no_percent_all_safe)
  then have "concat (map quoter bs) = bs"
    by (induction bs) (auto simp: quoter_def)
  moreover have "list_all (\<lambda>b. b < 128) bs"
    using safe by (auto simp: list_all_iff safe_ascii)
  ultimately show ?thesis
    using False by (simp add: unquote_def utf8_decode_ascii)
qed

lemma unquote_quote:
  assumes "is_pystr p" "list_all (\<lambda>c. \<not> is_surrogate c) p"
  shows "\<exists>q. quote p = Inr q \<and> unquote q = p"
proof (cases "p = []")
  case True
  then show ?thesis
    by (simp add: quote_def unquote_def)
next
  case False
  then show ?thesis
    using assms
    by (simp add: quote_def utf8_encode_def utf8_encode_from_ok quote_from_bytes_map
        unquote_quoted utf8_bytes utf8_decode_encoded)
qed

lemma quote_surrogate:
  assumes "\<not> list_all (\<lambda>c. \<not> is_surrogate c) p"
  shows "\<exists>e. quote p = Inl e \<and> cls e = UnicodeEncodeError"
proof -
  have "p \<noteq> []"
    using assms by auto
  then show ?thesis
    using utf8_encode_from_fails [OF assms, of 0] by (auto simp: quote_def utf8_encode_def)
qed

subsection \<open>The mode tables\<close>

text \<open>
  Claim C5: the service-side modes normal, off, frost and absence are the four constants
  \<open>MODE_NORMAL\<close> (the string \<^verbatim>\<open>on\<close>), \<open>MODE_OFF\<close>, \<open>MODE_FROST\<close> and \<open>MODE_ABSENCE\<close>.
  They are four different keys and the only keys of \<open>HA_MODE_MAP\<close>; each comes back from
  \<^verbatim>\<open>TIKO_MODE_MAP[HA_MODE_MAP[m]]\<close>; the keys of \<open>TIKO_MODE_MAP\<close> are \<^verbatim>\<open>heat\<close>, \<^verbatim>\<open>off\<close>,
  \<^verbatim>\<open>eco\<close>, \<^verbatim>\<open>away\<close>; a climate-facing mode \<open>h\<close> is the image of \<open>m\<close> exactly when \<open>m\<close> is
  the image of \<open>h\<close>, so each table is a bijection and the inverse of the other; and frost
  corresponds to \<^verbatim>\<open>eco\<close> in both directions.
\<close>

theorem mode_maps_inverse:
  "distinct [MODE_NORMAL, MODE_OFF, MODE_FROST, MODE_ABSENCE]
   \<and> dom HA_MODE_MAP = {MODE_NORMAL, MODE_OFF, MODE_FROST, MODE_ABSENCE}
   \<and> dom TIKO_MODE_MAP = {''heat'', ''off'', ''eco'', ''away''}
   \<and> mode_round_trip MODE_NORMAL = Inr MODE_NORMAL
   \<and> mode_round_trip MODE_OFF = Inr MODE_OFF
   \<and> mode_round_trip MODE_FROST = Inr MODE_FROST
   \<and> mode_round_trip MODE_ABSENCE = Inr MODE_ABSENCE
   \<and> (HA_MODE_MAP m = Some h) = (TIKO_MODE_MAP h = Some m)
   \<and> HA_MODE_MAP MODE_NORMAL = Some ''heat'' \<and> TIKO_MODE_MAP ''heat'' = Some MODE_NORMAL
   \<and> HA_MODE_MAP MODE_OFF = Some ''off'' \<and> TIKO_MODE_MAP ''off'' = Some MODE_OFF
   \<and> HA_MODE_MAP MODE_FROST = Some ''eco'' \<and> TIKO_MODE_MAP ''eco'' = Some MODE_FROST
   \<and> HA_MODE_MAP MODE_ABSENCE = Some ''away'' \<and> TIKO_MODE_MAP ''away'' = Some MODE_ABSENCE"
  by (auto simp add: mode_defs split: if_splits)

subsection \<open>\<^verbatim>\<open>_make_request\<close>\<close>

text \<open>
  Claim C6: a reply that is accepted as JSON (status below 400, not the priming GET,
  a content type containing \<^verbatim>\<open>application/json\<close>) and whose body is an object with an
  \<^verbatim>\<open>errors\<close> list, the first entry of which has a message containing
  \<^verbatim>\<open>Limite de taux atteinte\<close>, makes \<^verbatim>\<open>_make_request\<close> raise \<^verbatim>\<open>TikoRateLimitError\<close>
  with that message, whatever the request was, a login included.
\<close>

theorem rate_limit_reply:
  assumes "replies w (length (sent w)) = Response status status_text (Some ctype) (Inr (JObj kvs))"
    and "status < 400"
    and "\<not> (meth = ''GET'' \<and> u = base_url)"
    and "is_substring ''application/json'' ctype"
    and "dict_lookup kvs ''errors'' = Some (JList (JObj ekvs # others))"
    and "dict_lookup ekvs ''message'' = Some (JStr m)"
    and "is_substring ''Limite de taux atteinte'' m"
  shows "fst (make_request rp a meth u body w) = Inl (Exn TikoRateLimitError m)"
  using assms by (simp add: make_request_def handle_reply_def check_errors_def)

theorem rate_limit_reply_witness:
  "replies (script [rate_limited]) (length (sent (script [rate_limited]))) = rate_limited
   \<and> fst (make_request no_repr new_api ''POST'' url
            (LogIn (email new_api) (unquote (password new_api))) (script [rate_limited]))
       = Inl (Exn TikoRateLimitError ''Limite de taux atteinte'')"
  using rate_limit_reply [of "script [rate_limited]" 200 "''OK''" "''application/json''"
      "[(''errors'', JList [JObj [(''message'', JStr ''Limite de taux atteinte'')]])]"
      "''POST''" url "[(''message'', JStr ''Limite de taux atteinte'')]" "[]"
      "''Limite de taux atteinte''" no_repr new_api
      "LogIn (email new_api) (unquote (password new_api))"]
  by (simp add: scenario_defs dict_lookup_def url_def base_url_def)

text \<open>
  Claim C8: when the status passes \<^verbatim>\<open>raise_for_status\<close> (below 400, so every 2xx) and
  the \<^verbatim>\<open>Content-Type\<close> header, or the empty string if there is none, does not contain
  \<^verbatim>\<open>application/json\<close>, a POST fails with \<^verbatim>\<open>aiohttp.ClientError\<close> and returns nothing;
  the GET to the root URL returns the empty dict whatever the content type.
\<close>

theorem content_type_checked:
  assumes "replies w (length (sent w)) = Response status status_text ctype body"
    and "status < 400"
    and "\<not> is_substring ''application/json'' (case ctype of None \<Rightarrow> [] | Some c \<Rightarrow> c)"
  shows "fst (make_request rp a ''POST'' u p w)
           = Inl (Exn ClientError
               (''Unexpected content type: '' @ (case ctype of None \<Rightarrow> [] | Some c \<Rightarrow> c)))
         \<and> fst (make_request rp a ''GET'' base_url p w) = Inr (JObj [])"
  using assms by (simp add: make_request_def handle_reply_def)

theorem content_type_checked_witness:
  "fst (make_request no_repr new_api ''POST'' url (GetRooms (JInt 7))
          (script [Response 200 ''OK'' (Some ''text/html'') (Inr (JObj []))]))
     = Inl (Exn ClientError ''Unexpected content type: text/html'')
   \<and> fst (make_request no_repr new_api ''GET'' base_url (GetRooms (JInt 7))
          (script [Response 200 ''OK'' (Some ''text/html'') (Inr (JObj []))]))
     = Inr (JObj [])"
  using content_type_checked [of "script [Response 200 ''OK'' (Some ''text/html'') (Inr (JObj []))]"
      200 "''OK''" "Some ''text/html''" "Inr (JObj [])" no_repr new_api url "GetRooms (JInt 7)"]
  by (simp add: scenario_defs)

subsection \<open>Failures of the fetch\<close>

text \<open>
  Nothing below the coordinator raises \<^verbatim>\<open>ConfigEntryAuthFailed\<close>, so a failure of the
  fetch always reaches the second \<^verbatim>\<open>except\<close> clause; and only \<^verbatim>\<open>authenticate\<close> sends a
  \<^verbatim>\<open>LogIn\<close> request, one per successful call.
\<close>

lemma py_in_cls: "py_in k v = Inl e \<Longrightarrow> cls e = TypeError"
  by (cases v) auto

lemma py_item_cls: "py_item v k = Inl e \<Longrightarrow> cls e = TypeError \<or> cls e = KeyError"
  by (cases v) (auto split: option.splits)

lemma py_first_cls:
  "py_first v = Inl e \<Longrightarrow> cls e = TypeError \<or> cls e = KeyError \<or> cls e = IndexError"
  by (cases v rule: py_first.cases) auto

lemma lib_exn_cls: "cls (lib_exn e) \<noteq> ConfigEntryAuthFailed"
  by (cases e) auto

lemma check_errors_cls: "check_errors rp j = Inl e \<Longrightarrow> cls e \<noteq> ConfigEntryAuthFailed"
  unfolding check_errors_def
  by (auto split: sum.splits bool.splits dest!: py_in_cls py_item_cls py_first_cls)

lemma handle_reply_cls: "handle_reply rp m u r = Inl e \<Longrightarrow> cls e \<noteq> ConfigEntryAuthFailed"
  unfolding handle_reply_def
  by (auto simp: lib_exn_cls Let_def split: reply.splits if_splits sum.splits dest: check_errors_cls)

lemma make_request_cls:
  "make_request rp a m u p w = (Inl e, w') \<Longrightarrow> cls e \<noteq> ConfigEntryAuthFailed"
  by (auto simp: make_request_def dest: handle_reply_cls)

lemma get_rooms_cls: "get_rooms rp a w = (Inl e, w') \<Longrightarrow> cls e \<noteq> ConfigEntryAuthFailed"
  by (auto simp: get_rooms_def no_property_id_def split: option.splits dest: make_request_cls)

lemma get_devices_cls: "get_devices rp a w = (Inl e, w') \<Longrightarrow> cls e \<noteq> ConfigEntryAuthFailed"
  by (auto simp: get_devices_def no_property_id_def split: option.splits dest: make_request_cls)

lemma gather_Inl: "gather b r1 r2 = Inl e \<Longrightarrow> r1 = Inl e \<or> r2 = Inl e"
  by (cases "(b, r1, r2)" rule: gather.cases) (auto split: if_splits)

lemma fetch_both_cls: "fetch_both rp a w = (Inl e, w') \<Longrightarrow> cls e \<noteq> ConfigEntryAuthFailed"
  unfolding fetch_both_def
  by (auto split: prod.splits dest!: gather_Inl dest: get_rooms_cls get_devices_cls)

lemma ensure_authenticated_maps:
  "ensure_authenticated rp c w = (r, c', w') \<Longrightarrow>
     rooms c' = rooms c \<and> devices c' = devices c \<and> data c' = data c
     \<and> last_update_success c' = last_update_success c \<and> refresh_requests c' = refresh_requests c"
  by (auto simp: ensure_authenticated_def split: option.splits prod.splits sum.splits)

lemma make_request_logins:
  "make_request rp a m u p w = (r, w') \<Longrightarrow>
     logins w' = logins w + (case p of LogIn _ _ \<Rightarrow> 1 | _ \<Rightarrow> 0)"
  by (auto simp: make_request_def logins_def is_login_def split: payload.splits)

lemma get_rooms_logins: "get_rooms rp a w = (r, w') \<Longrightarrow> logins w' = logins w"
  by (auto simp: get_rooms_def split: option.splits dest: make_request_logins)

lemma get_devices_logins: "get_devices rp a w = (r, w') \<Longrightarrow> logins w' = logins w"
  by (auto simp: get_devices_def split: option.splits dest: make_request_logins)

lemma fetch_both_logins: "fetch_both rp a w = (r, w') \<Longrightarrow> logins w' = logins w"
  by (auto simp: fetch_both_def split: prod.splits dest!: get_rooms_logins get_devices_logins)

lemma authenticate_logins:
  "authenticate rp a w = (Inr u, a', w') \<Longrightarrow> logins w' = Suc (logins w)"
  by (auto simp: authenticate_def split: prod.splits sum.splits dest!: make_request_logins)

lemma fetch_with_retry_keeps:
  "fetch_with_retry rp c w = (r, c', w') \<Longrightarrow>
     rooms c' = rooms c \<and> devices c' = devices c \<and> data c' = data c
     \<and> last_update_success c' = last_update_success c \<and> refresh_requests c' = refresh_requests c"
  by (auto simp: fetch_with_retry_def split: prod.splits sum.splits if_splits)

lemma store_results_keeps:
  "store_results rp c res = (r, c') \<Longrightarrow>
     api c' = api c \<and> data c' = data c
     \<and> last_update_success c' = last_update_success c \<and> refresh_requests c' = refresh_requests c"
  by (auto simp: store_results_def Let_def split: prod.splits sum.splits)

lemma async_update_data_keeps:
  assumes "async_update_data rp c w = (r, c', w')"
  shows "refresh_requests c' = refresh_requests c \<and> data c' = data c
         \<and> last_update_success c' = last_update_success c"
  using assms unfolding async_update_data_def update_body_def
  by (auto split: prod.splits sum.splits
      dest!: ensure_authenticated_maps fetch_with_retry_keeps store_results_keeps)

lemma async_request_refresh_counts:
  "refresh_requests (fst (async_request_refresh rp c w)) = Suc (refresh_requests c)"
  unfolding async_request_refresh_def
  by (auto split: prod.splits sum.splits dest!: async_update_data_keeps)

lemma set_heating_mode_sent:
  "sent (snd (set_heating_mode rp a mode w)) =
     (case property_id a of
        None \<Rightarrow> sent w
      | Some pid \<Rightarrow> sent w @ [\<lparr>rq_method = ''POST'', rq_url = url,
                                rq_authorization = authorization a, rq_payload = SetMode pid mode\<rparr>])"
  by (simp add: set_heating_mode_def make_request_def split: option.splits)

lemma api_set_temperature_sent:
  "sent (snd (api_set_temperature rp a n temp w)) =
     (case property_id a of
        None \<Rightarrow> sent w
      | Some pid \<Rightarrow> sent w @ [\<lparr>rq_method = ''POST'', rq_url = url,
                                rq_authorization = authorization a,
                                rq_payload = SetRoomAdjustTemperature pid n temp\<rparr>])"
  by (simp add: api_set_temperature_def make_request_def split: option.splits)

lemma py_iter_cls: "py_iter v = Inl e \<Longrightarrow> cls e = TypeError"
  by (cases v) auto

lemma collect_cls: "collect rp m xs = Inl e \<Longrightarrow> cls e \<noteq> ConfigEntryAuthFailed"
  by (induction xs arbitrary: m) (auto split: sum.splits dest!: py_item_cls)

lemma has_property_cls: "has_property j = Inl e \<Longrightarrow> cls e \<noteq> ConfigEntryAuthFailed"
  unfolding has_property_def
  by (auto split: sum.splits bool.splits dest!: py_in_cls py_item_cls)

lemma process_cls: "process rp coll invalid j = Inl e \<Longrightarrow> cls e \<noteq> ConfigEntryAuthFailed"
  unfolding process_def
  by (auto split: sum.splits bool.splits
      dest!: py_item_cls py_iter_cls dest: has_property_cls collect_cls)

lemma collect_has_id: "list_all has_id xs \<Longrightarrow> \<exists>m'. collect rp m xs = Inr m'"
  by (induction xs arbitrary: m) (auto simp: has_id_def split: json.splits)

lemma well_formed_shape:
  assumes "well_formed coll j"
  obtains kvs d p xs where "j = JObj kvs" "dict_lookup kvs ''data'' = Some (JObj d)"
    "dict_lookup d ''property'' = Some (JObj p)" "dict_lookup p coll = Some (JList xs)"
    "list_all has_id xs"
  using assms unfolding well_formed_def
  by (auto split: json.splits option.splits)

lemma process_well_formed:
  assumes "well_formed coll j"
  shows "\<exists>m. process rp coll invalid j = Inr m"
proof -
  from assms obtain kvs d p xs where shape: "j = JObj kvs"
    "dict_lookup kvs ''data'' = Some (JObj d)" "dict_lookup d ''property'' = Some (JObj p)"
    "dict_lookup p coll = Some (JList xs)" "list_all has_id xs"
    by (rule well_formed_shape)
  from shape(5) obtain m where "collect rp Map.empty xs = Inr m"
    using collect_has_id by blast
  with shape(1-4) have "process rp coll invalid j = Inr m"
    by (simp add: process_def has_property_def)
  then show ?thesis
    by blast
qed

subsection \<open>A refresh cycle\<close>

text \<open>
  Claim C9: the reply of \<^verbatim>\<open>GetRooms\<close> with the one room \<^verbatim>\<open>Lounge\<close> of id 42 gives the
  rooms map with the single key \<^verbatim>\<open>"42"\<close>. In the first cycle of a new coordinator against
  a service that accepts the login and returns that room and no devices, the cycle
  returns and stores this map; the entity of room \<^verbatim>\<open>"42"\<close> then shows the current
  temperature 19.5, the target temperature 21.0 and the action \<^verbatim>\<open>heating\<close>.
\<close>

theorem lounge_scenario:
  "process_rooms rp (JObj [(''data'', JObj [(''property'', JObj [(''rooms'', JList [lounge])])])])
     = Inr [''42'' \<mapsto> lounge]
   \<and> (case async_update_data rp new_coordinator
              (script [ok_json JNull, login_ok, rooms_reply [lounge], devices_reply []]) of
         (r, c, w) \<Rightarrow>
           r = Inr \<lparr>snap_rooms = [''42'' \<mapsto> lounge], snap_devices = Map.empty\<rparr>
           \<and> rooms c = [''42'' \<mapsto> lounge]
           \<and> dom (rooms c) = {''42''}
           \<and> current_temperature c ''42'' = Inr (JFloat 19.5)
           \<and> target_temperature c ''42'' = Inr (JFloat 21.0)
           \<and> hvac_action c ''42'' = Inr HEATING
           \<and> hvac_action_value HEATING = ''heating'')"
  by (simp add: scenario_defs py_defs api_defs coordinator_defs unquote_secret
      room_data_def current_temperature_def target_temperature_def hvac_action_def)

text \<open>
  Claim C1 at a failing input. A first cycle succeeds with the room \<^verbatim>\<open>Lounge\<close> and one
  device. In the second cycle the rooms reply is well-formed (the room \<^verbatim>\<open>Kitchen\<close>) and
  the devices reply has no \<^verbatim>\<open>property\<close>: the cycle raises \<^verbatim>\<open>UpdateFailed\<close>, but
  \<^verbatim>\<open>self.rooms\<close> was assigned before the devices reply was checked, so the rooms map is
  that of the failed cycle while the devices map is still that of the first.
\<close>

theorem rooms_replaced_by_failed_cycle:
  "(case async_update_data rp new_coordinator
           (script [ok_json JNull, login_ok, rooms_reply [lounge], devices_reply [heater],
                    rooms_reply [kitchen], ok_json (JObj [(''data'', JObj [])])]) of
      (r1, c1, w1) \<Rightarrow>
        (case async_update_data rp c1 w1 of
           (r2, c2, w2) \<Rightarrow>
             r1 = Inr \<lparr>snap_rooms = [''42'' \<mapsto> lounge], snap_devices = [''9'' \<mapsto> heater]\<rparr>
             \<and> rooms c1 = [''42'' \<mapsto> lounge] \<and> devices c1 = [''9'' \<mapsto> heater]
             \<and> r2 = Inl (Exn UpdateFailed ''Error communicating with API: Invalid devices response'')
             \<and> rooms c2 = [''43'' \<mapsto> kitchen] \<and> devices c2 = [''9'' \<mapsto> heater]
             \<and> rooms c2 ''42'' \<noteq> rooms c1 ''42''))"
  by (simp add: scenario_defs py_defs api_defs coordinator_defs unquote_secret)

text \<open>
  Claim C2 at a failing input: a login reply whose user has an empty \<^verbatim>\<open>properties\<close>
  list. \<^verbatim>\<open>authenticate\<close> raises \<^verbatim>\<open>IndexError\<close>, not \<^verbatim>\<open>TikoAuthenticationError\<close>, after
  it has assigned \<^verbatim>\<open>self.token\<close>. The first cycle reports \<^verbatim>\<open>ConfigEntryAuthFailed\<close>;
  the next cycle finds the token, does not log in again (the log still has one
  \<^verbatim>\<open>LogIn\<close>), sends nothing and fails on the missing \<^verbatim>\<open>property_id\<close>.
\<close>

theorem no_properties_login:
  "(case authenticate rp new_api (script [ok_json JNull, login_no_properties]) of
      (r, a, w) \<Rightarrow>
        r = Inl (Exn IndexError ''list index out of range'')
        \<and> token a = Some (JStr ''t0k3n'') \<and> property_id a = None)
   \<and> (case async_update_data rp new_coordinator (script [ok_json JNull, login_no_properties]) of
        (r1, c1, w1) \<Rightarrow>
          r1 = Inl (Exn ConfigEntryAuthFailed [])
          \<and> token (api c1) = Some (JStr ''t0k3n'')
          \<and> (case async_update_data rp c1 w1 of
                (r2, c2, w2) \<Rightarrow>
                  r2 = Inl (Exn UpdateFailed
                         (''Error communicating with API: '' @ msg no_property_id))
                  \<and> sent w2 = sent w1 \<and> logins w2 = 1))"
  by (simp add: scenario_defs py_defs api_defs coordinator_defs unquote_secret
      logins_def is_login_def)

text \<open>
  Claim C3, as stated, at a retry whose devices reply has no \<^verbatim>\<open>property\<close>. The client
  holds a token, the first fetch fails with a text containing \<^verbatim>\<open>Authentication failed\<close>,
  \<^verbatim>\<open>authenticate\<close> succeeds and the second fetch returns both replies without an error;
  the cycle still raises \<^verbatim>\<open>UpdateFailed\<close>, because the replies are validated after the
  fetch.
\<close>

theorem retried_reply_malformed:
  "fst (fetch_both no_repr (api running_coordinator)
         (script [token_rejected, devices_reply [], ok_json JNull, login_ok,
                  rooms_reply [kitchen], devices_without_property]))
     = Inl (Exn ClientError ''Authentication failed'')
   \<and> token (api running_coordinator) = Some (JStr ''t0k3n'')
   \<and> fst (authenticate no_repr (api running_coordinator)
         (snd (fetch_both no_repr (api running_coordinator)
           (script [token_rejected, devices_reply [], ok_json JNull, login_ok,
                    rooms_reply [kitchen], devices_without_property]))))
     = Inr ()
   \<and> fst (fetch_both no_repr logged_in_api
         (snd (snd (authenticate no_repr (api running_coordinator)
           (snd (fetch_both no_repr (api running_coordinator)
             (script [token_rejected, devices_reply [], ok_json JNull, login_ok,
                      rooms_reply [kitchen], devices_without_property]))))))) 
     = Inr (JObj [(''data'', JObj [(''property'', JObj [(''rooms'', JList [kitchen])])])],
            JObj [(''data'', JObj [])])
   \<and> fst (async_update_data no_repr running_coordinator
         (script [token_rejected, devices_reply [], ok_json JNull, login_ok,
                  rooms_reply [kitchen], devices_without_property]))
     = Inl (Exn UpdateFailed ''Error communicating with API: Invalid devices response'')"
  by (simp add: scenario_defs py_defs api_defs coordinator_defs
      unquote_secret)

text \<open>
  Claim C3, amended: the client holds a token, the fetch fails with an error whose text
  contains \<^verbatim>\<open>Authentication failed\<close>, and \<^verbatim>\<open>authenticate\<close> then succeeds. The cycle
  sends exactly one \<^verbatim>\<open>LogIn\<close>. If the second fetch returns two replies that pass the
  validation of the cycle, as every reply does that carries its collection as a list of
  objects with an \<^verbatim>\<open>id\<close>, the cycle returns and stores the maps made from them. If a
  returned reply does not pass, or if the second fetch fails, the cycle raises
  \<^verbatim>\<open>UpdateFailed\<close> with the text of that failure, never \<^verbatim>\<open>ConfigEntryAuthFailed\<close>.
\<close>

theorem reauthenticate_once:
  assumes "token (api c) = Some t"
    and "fetch_both rp (api c) w = (Inl err, w1)"
    and "is_substring ''Authentication failed'' (msg err)"
    and "authenticate rp (api c) w1 = (Inr (), a, w2)"
    and "fetch_both rp a w2 = (retried, w3)"
  shows "(\<forall>rr dr rs ds. retried = Inr (rr, dr) \<longrightarrow> process_rooms rp rr = Inr rs \<longrightarrow>
            process_devices rp dr = Inr ds \<longrightarrow>
            async_update_data rp c w
              = (Inr \<lparr>snap_rooms = rs, snap_devices = ds\<rparr>,
                 c\<lparr>api := a, rooms := rs, devices := ds\<rparr>, w3))
         \<and> (\<forall>rr dr. retried = Inr (rr, dr) \<longrightarrow> well_formed ''rooms'' rr \<longrightarrow>
              well_formed ''devices'' dr \<longrightarrow>
              (\<exists>rs ds. async_update_data rp c w
                 = (Inr \<lparr>snap_rooms = rs, snap_devices = ds\<rparr>,
                    c\<lparr>api := a, rooms := rs, devices := ds\<rparr>, w3)))
         \<and> (\<forall>rr dr e. retried = Inr (rr, dr) \<longrightarrow>
              (process_rooms rp rr = Inl e
               \<or> (\<exists>rs. process_rooms rp rr = Inr rs \<and> process_devices rp dr = Inl e)) \<longrightarrow>
              fst (async_update_data rp c w)
                = Inl (Exn UpdateFailed (''Error communicating with API: '' @ msg e)))
         \<and> (\<forall>e. retried = Inl e \<longrightarrow>
              async_update_data rp c w
                = (Inl (Exn UpdateFailed (''Error communicating with API: '' @ msg e)),
                   c\<lparr>api := a\<rparr>, w3))
         \<and> logins w3 = Suc (logins w)"
proof -
  have auth: "ensure_authenticated rp c w = (Inr (), c, w)"
    using assms(1) by (simp add: ensure_authenticated_def)
  have retry: "fetch_with_retry rp c w = (retried, c\<lparr>api := a\<rparr>, w3)"
    using assms(2-5) by (simp add: fetch_with_retry_def)
  have ok: "async_update_data rp c w
              = (Inr \<lparr>snap_rooms = rs, snap_devices = ds\<rparr>,
                 c\<lparr>api := a, rooms := rs, devices := ds\<rparr>, w3)"
    if "retried = Inr (rr, dr)" "process_rooms rp rr = Inr rs" "process_devices rp dr = Inr ds"
    for rr dr rs ds
    using that auth retry
    by (simp add: async_update_data_def update_body_def store_results_def)
  have shaped: "\<exists>rs ds. async_update_data rp c w
                 = (Inr \<lparr>snap_rooms = rs, snap_devices = ds\<rparr>,
                    c\<lparr>api := a, rooms := rs, devices := ds\<rparr>, w3)"
    if "retried = Inr (rr, dr)" "well_formed ''rooms'' rr" "well_formed ''devices'' dr"
    for rr dr
  proof -
    from that obtain rs ds
      where "process_rooms rp rr = Inr rs" "process_devices rp dr = Inr ds"
      using process_well_formed unfolding process_rooms_def process_devices_def
      by blast
    with ok that show ?thesis
      by blast
  qed
  have malformed: "fst (async_update_data rp c w)
                = Inl (Exn UpdateFailed (''Error communicating with API: '' @ msg e))"
    if r: "retried = Inr (rr, dr)"
      and p: "process_rooms rp rr = Inl e
           \<or> (\<exists>rs. process_rooms rp rr = Inr rs \<and> process_devices rp dr = Inl e)"
    for rr dr e
  proof -
    have "cls e \<noteq> ConfigEntryAuthFailed"
      using p unfolding process_rooms_def process_devices_def
      by (auto dest: process_cls)
    moreover have "fst (store_results rp (c\<lparr>api := a\<rparr>) (rr, dr)) = Inl e"
      using p by (auto simp: store_results_def)
    ultimately show ?thesis
      using r auth retry
      by (auto simp: async_update_data_def update_body_def reraise_def split: prod.splits)
  qed
  have again: "async_update_data rp c w
                = (Inl (Exn UpdateFailed (''Error communicating with API: '' @ msg e)),
                   c\<lparr>api := a\<rparr>, w3)"
    if "retried = Inl e" for e
  proof -
    have "cls e \<noteq> ConfigEntryAuthFailed"
      using assms(5) that by (auto dest: fetch_both_cls)
    then show ?thesis
      using that auth retry by (simp add: async_update_data_def update_body_def reraise_def)
  qed
  have "logins w1 = logins w" "logins w2 = Suc (logins w1)" "logins w3 = logins w2"
    using assms(2,4,5) by (auto dest: fetch_both_logins authenticate_logins)
  then have "logins w3 = Suc (logins w)"
    by simp
  with ok shaped malformed again show ?thesis
    by blast
qed

theorem reauthenticate_once_witness:
  "async_update_data no_repr running_coordinator
       (script [token_rejected, devices_reply [], ok_json JNull, login_ok,
                rooms_reply [kitchen], devices_reply [heater]])
     = (Inr \<lparr>snap_rooms = [''43'' \<mapsto> kitchen], snap_devices = [''9'' \<mapsto> heater]\<rparr>,
        running_coordinator\<lparr>api := logged_in_api, rooms := [''43'' \<mapsto> kitchen],
                             devices := [''9'' \<mapsto> heater]\<rparr>,
        snd (snd (async_update_data no_repr running_coordinator
          (script [token_rejected, devices_reply [], ok_json JNull, login_ok,
                rooms_reply [kitchen], devices_reply [heater]]))))
   \<and> logins (snd (snd (async_update_data no_repr running_coordinator
          (script [token_rejected, devices_reply [], ok_json JNull, login_ok,
                rooms_reply [kitchen], devices_reply [heater]])))) = 1
   \<and> fst (async_update_data no_repr running_coordinator
       (script [token_rejected, devices_reply [], ok_json JNull, login_ok,
                unreachable, devices_reply [heater]]))
     = Inl (Exn UpdateFailed ''Error communicating with API: Cannot connect to host'')
   \<and> fst (async_update_data no_repr running_coordinator
       (script [token_rejected, devices_reply [], ok_json JNull, login_ok,
                rooms_reply [kitchen], devices_without_property]))
     = Inl (Exn UpdateFailed ''Error communicating with API: Invalid devices response'')
   \<and> well_formed ''rooms''
         (JObj [(''data'', JObj [(''property'', JObj [(''rooms'', JList [kitchen])])])])
   \<and> well_formed ''devices''
         (JObj [(''data'', JObj [(''property'', JObj [(''devices'', JList [heater])])])])"
proof -
  let ?c = running_coordinator
  let ?wa = "script [token_rejected, devices_reply [], ok_json JNull, login_ok,
                rooms_reply [kitchen], devices_reply [heater]]"
  let ?wb = "script [token_rejected, devices_reply [], ok_json JNull, login_ok,
                unreachable, devices_reply [heater]]"
  let ?wc = "script [token_rejected, devices_reply [], ok_json JNull, login_ok,
                rooms_reply [kitchen], devices_without_property]"
  let ?err = "Exn ClientError ''Authentication failed''"
  have tok: "token (api ?c) = Some (JStr ''t0k3n'')"
    by (simp add: scenario_defs)
  have sub: "is_substring ''Authentication failed'' (msg ?err)"
    by simp
  have a1: "fetch_both no_repr (api ?c) ?wa = (Inl ?err, snd (fetch_both no_repr (api ?c) ?wa))"
    by (simp add: scenario_defs py_defs api_defs fetch_both_def)
  have a2: "authenticate no_repr (api ?c) (snd (fetch_both no_repr (api ?c) ?wa))
      = (Inr (), logged_in_api, snd (snd (authenticate no_repr (api ?c) (snd (fetch_both no_repr (api ?c) ?wa)))))"
    by (simp add: scenario_defs py_defs api_defs fetch_both_def unquote_secret)
  have a3: "fetch_both no_repr logged_in_api
        (snd (snd (authenticate no_repr (api ?c) (snd (fetch_both no_repr (api ?c) ?wa)))))
      = (Inr (JObj [(''data'', JObj [(''property'', JObj [(''rooms'', JList [kitchen])])])],
              JObj [(''data'', JObj [(''property'', JObj [(''devices'', JList [heater])])])]),
         snd (fetch_both no_repr logged_in_api
        (snd (snd (authenticate no_repr (api ?c) (snd (fetch_both no_repr (api ?c) ?wa)))))))"
    by (simp add: scenario_defs py_defs api_defs fetch_both_def unquote_secret)
  have rs: "process_rooms no_repr (JObj [(''data'', JObj [(''property'', JObj [(''rooms'', JList [kitchen])])])])
      = Inr [''43'' \<mapsto> kitchen]"
    by (simp add: scenario_defs py_defs coordinator_defs)
  have ds: "process_devices no_repr (JObj [(''data'', JObj [(''property'', JObj [(''devices'', JList [heater])])])])
      = Inr [''9'' \<mapsto> heater]"
    by (simp add: scenario_defs py_defs coordinator_defs)
  have b1: "fetch_both no_repr (api ?c) ?wb = (Inl ?err, snd (fetch_both no_repr (api ?c) ?wb))"
    by (simp add: scenario_defs py_defs api_defs fetch_both_def)
  have b2: "authenticate no_repr (api ?c) (snd (fetch_both no_repr (api ?c) ?wb))
      = (Inr (), logged_in_api, snd (snd (authenticate no_repr (api ?c) (snd (fetch_both no_repr (api ?c) ?wb)))))"
    by (simp add: scenario_defs py_defs api_defs fetch_both_def unquote_secret)
  have b3: "fetch_both no_repr logged_in_api
        (snd (snd (authenticate no_repr (api ?c) (snd (fetch_both no_repr (api ?c) ?wb)))))
      = (Inl (Exn ClientError ''Cannot connect to host''),
         snd (fetch_both no_repr logged_in_api
        (snd (snd (authenticate no_repr (api ?c) (snd (fetch_both no_repr (api ?c) ?wb)))))))"
    by (simp add: scenario_defs py_defs api_defs fetch_both_def unquote_secret)
  have c1: "fetch_both no_repr (api ?c) ?wc = (Inl ?err, snd (fetch_both no_repr (api ?c) ?wc))"
    by (simp add: scenario_defs py_defs api_defs fetch_both_def)
  have c2: "authenticate no_repr (api ?c) (snd (fetch_both no_repr (api ?c) ?wc))
      = (Inr (), logged_in_api, snd (snd (authenticate no_repr (api ?c) (snd (fetch_both no_repr (api ?c) ?wc)))))"
    by (simp add: scenario_defs py_defs api_defs fetch_both_def unquote_secret)
  have c3: "fetch_both no_repr logged_in_api
        (snd (snd (authenticate no_repr (api ?c) (snd (fetch_both no_repr (api ?c) ?wc)))))
      = (Inr (JObj [(''data'', JObj [(''property'', JObj [(''rooms'', JList [kitchen])])])],
              JObj [(''data'', JObj [])]),
         snd (fetch_both no_repr logged_in_api
        (snd (snd (authenticate no_repr (api ?c) (snd (fetch_both no_repr (api ?c) ?wc)))))))"
    by (simp add: scenario_defs py_defs api_defs fetch_both_def unquote_secret)
  have bad: "process_devices no_repr (JObj [(''data'', JObj [])])
      = Inl (Exn UpdateFailed ''Invalid devices response'')"
    by (simp add: py_defs coordinator_defs)
  have wr: "well_formed ''rooms''
      (JObj [(''data'', JObj [(''property'', JObj [(''rooms'', JList [kitchen])])])])"
    by (simp add: well_formed_def has_id_def dict_lookup_def kitchen_def)
  have wd: "well_formed ''devices''
      (JObj [(''data'', JObj [(''property'', JObj [(''devices'', JList [heater])])])])"
    by (simp add: well_formed_def has_id_def dict_lookup_def heater_def)
  have l0: "logins ?wa = 0"
    by (simp add: logins_def script_def)
  note A = reauthenticate_once [OF tok a1 sub a2 a3]
  note B = reauthenticate_once [OF tok b1 sub b2 b3]
  note C = reauthenticate_once [OF tok c1 sub c2 c3]
  note A1 = A [THEN conjunct1, rule_format, OF refl rs ds]
  note A2 = A [THEN conjunct2, THEN conjunct2, THEN conjunct2, THEN conjunct2]
  note B1 = B [THEN conjunct2, THEN conjunct2, THEN conjunct2, THEN conjunct1, rule_format, OF refl]
  have either: "process_rooms no_repr
        (JObj [(''data'', JObj [(''property'', JObj [(''rooms'', JList [kitchen])])])])
      = Inl (Exn UpdateFailed ''Invalid devices response'')
    \<or> (\<exists>m. process_rooms no_repr
        (JObj [(''data'', JObj [(''property'', JObj [(''rooms'', JList [kitchen])])])])
      = Inr m
      \<and> process_devices no_repr (JObj [(''data'', JObj [])])
      = Inl (Exn UpdateFailed ''Invalid devices response''))"
    using rs bad by simp
  note C1 = C [THEN conjunct2, THEN conjunct2, THEN conjunct1, rule_format, OF refl either]
  from A1 A2 B1 C1 l0 wr wd show ?thesis
    by simp
qed

text \<open>
  Claim C4: once the cycle has a session (it holds a token, or has just logged in), a fetch
  that fails with an error whose text does not contain \<^verbatim>\<open>Authentication failed\<close>, a
  transport error in particular, makes the cycle raise \<^verbatim>\<open>UpdateFailed\<close> with that text,
  and both maps are what they were before the cycle.
\<close>

theorem transport_failure_keeps_maps:
  assumes "ensure_authenticated rp c w = (Inr (), c1, w1)"
    and "fetch_both rp (api c1) w1 = (Inl err, w2)"
    and "\<not> is_substring ''Authentication failed'' (msg err)"
  shows "async_update_data rp c w
           = (Inl (Exn UpdateFailed (''Error communicating with API: '' @ msg err)), c1, w2)
         \<and> rooms c1 = rooms c \<and> devices c1 = devices c"
proof -
  have "cls err \<noteq> ConfigEntryAuthFailed"
    using assms(2) by (rule fetch_both_cls)
  moreover have "fetch_with_retry rp c1 w1 = (Inl err, c1, w2)"
    using assms(2,3) by (simp add: fetch_with_retry_def)
  ultimately have "async_update_data rp c w
      = (Inl (Exn UpdateFailed (''Error communicating with API: '' @ msg err)), c1, w2)"
    using assms(1) by (simp add: async_update_data_def update_body_def reraise_def)
  then show ?thesis
    using ensure_authenticated_maps [OF assms(1)] by simp
qed

theorem transport_failure_keeps_maps_witness:
  "fst (async_update_data no_repr running_coordinator (script [unreachable, devices_reply []]))
     = Inl (Exn UpdateFailed ''Error communicating with API: Cannot connect to host'')
   \<and> rooms (fst (snd (async_update_data no_repr running_coordinator
                          (script [unreachable, devices_reply []])))) = [''42'' \<mapsto> lounge]
   \<and> devices (fst (snd (async_update_data no_repr running_coordinator
                          (script [unreachable, devices_reply []])))) = [''9'' \<mapsto> heater]"
proof -
  let ?w = "script [unreachable, devices_reply []]"
  have auth: "ensure_authenticated no_repr running_coordinator ?w = (Inr (), running_coordinator, ?w)"
    by (simp add: ensure_authenticated_def scenario_defs)
  have fetch: "fetch_both no_repr (api running_coordinator) ?w
      = (Inl (Exn ClientError ''Cannot connect to host''), snd (fetch_both no_repr (api running_coordinator) ?w))"
    by (simp add: scenario_defs py_defs api_defs fetch_both_def)
  have sub: "\<not> is_substring ''Authentication failed'' (msg (Exn ClientError ''Cannot connect to host''))"
    by simp
  from transport_failure_keeps_maps [OF auth fetch sub] show ?thesis
    by (simp add: running_coordinator_def)
qed

subsection \<open>The commands\<close>

text \<open>
  Claim C7, as stated, at a failing remote call: \<^verbatim>\<open>set_mode\<close> with the service answering
  the command with status 500. The failure reaches the caller and the command was sent
  once, but no refresh has been requested.
\<close>

theorem failed_command_requests_no_refresh:
  "fst (set_mode no_repr running_coordinator ''off'' (script [server_error]))
     = Inl (Exn ClientError ''500, message=Internal Server Error'')
   \<and> refresh_requests (fst (snd (set_mode no_repr running_coordinator ''off''
         (script [server_error])))) = 0
   \<and> map rq_payload (sent (snd (snd (set_mode no_repr running_coordinator ''off''
         (script [server_error]))))) = [SetMode (JInt 7) ''off'']"
  by (simp add: set_mode_def scenario_defs api_defs)

text \<open>
  Claim C7, amended: each command makes the one call of the API client, with the mode
  as given and the room id converted by \<^verbatim>\<open>int\<close> (one POST with these variables when
  the client has a property id). If the call returns, the command requests a refresh and
  returns; if the call fails, the command raises the same failure, with the coordinator
  unchanged and the world as the one call left it: no refresh, no second attempt.
\<close>

theorem command_then_refresh:
  "(\<forall>j w1. set_heating_mode rp (api c) mode w = (Inr j, w1) \<longrightarrow>
      set_mode rp c mode w = (Inr (), async_request_refresh rp c w1)
      \<and> refresh_requests (fst (async_request_refresh rp c w1)) = Suc (refresh_requests c))
   \<and> (\<forall>e w1. set_heating_mode rp (api c) mode w = (Inl e, w1) \<longrightarrow>
        set_mode rp c mode w = (Inl e, c, w1))
   \<and> (\<forall>n j w1. to_int room_id = Inr n \<longrightarrow>
        api_set_temperature rp (api c) n temp w = (Inr j, w1) \<longrightarrow>
        set_temperature rp to_int c room_id temp w = (Inr (), async_request_refresh rp c w1)
        \<and> refresh_requests (fst (async_request_refresh rp c w1)) = Suc (refresh_requests c))
   \<and> (\<forall>n e w1. to_int room_id = Inr n \<longrightarrow>
        api_set_temperature rp (api c) n temp w = (Inl e, w1) \<longrightarrow>
        set_temperature rp to_int c room_id temp w = (Inl e, c, w1))
   \<and> (\<forall>pid. property_id (api c) = Some pid \<longrightarrow>
        sent (snd (set_heating_mode rp (api c) mode w))
          = sent w @ [\<lparr>rq_method = ''POST'', rq_url = url,
                        rq_authorization = authorization (api c), rq_payload = SetMode pid mode\<rparr>]
        \<and> (\<forall>n. sent (snd (api_set_temperature rp (api c) n temp w))
          = sent w @ [\<lparr>rq_method = ''POST'', rq_url = url,
                        rq_authorization = authorization (api c),
                        rq_payload = SetRoomAdjustTemperature pid n temp\<rparr>]))"
proof -
  have "set_mode rp c mode w = (Inr (), async_request_refresh rp c w1)"
    if "set_heating_mode rp (api c) mode w = (Inr j, w1)" for j w1
    using that by (simp add: set_mode_def split: prod.splits)
  moreover have "set_mode rp c mode w = (Inl e, c, w1)"
    if "set_heating_mode rp (api c) mode w = (Inl e, w1)" for e w1
    using that by (simp add: set_mode_def)
  moreover have
    "set_temperature rp to_int c room_id temp w = (Inr (), async_request_refresh rp c w1)"
    if "to_int room_id = Inr n" "api_set_temperature rp (api c) n temp w = (Inr j, w1)"
    for n j w1
    using that by (simp add: set_temperature_def split: prod.splits)
  moreover have "set_temperature rp to_int c room_id temp w = (Inl e, c, w1)"
    if "to_int room_id = Inr n" "api_set_temperature rp (api c) n temp w = (Inl e, w1)"
    for n e w1
    using that by (simp add: set_temperature_def)
  ultimately show ?thesis
    by (simp add: async_request_refresh_counts set_heating_mode_sent api_set_temperature_sent)
qed

theorem command_then_refresh_witness:
  "fst (set_mode no_repr running_coordinator ''off''
          (script [ok_json (JObj [(''data'', JObj [])]), rooms_reply [kitchen], devices_reply [heater]]))
     = Inr ()
   \<and> refresh_requests (fst (snd (set_mode no_repr running_coordinator ''off''
          (script [ok_json (JObj [(''data'', JObj [])]), rooms_reply [kitchen], devices_reply [heater]]))))
     = 1
   \<and> set_mode no_repr running_coordinator ''off'' (script [server_error])
     = (Inl (Exn ClientError ''500, message=Internal Server Error''), running_coordinator,
        snd (set_heating_mode no_repr logged_in_api ''off'' (script [server_error])))
   \<and> fst (set_temperature no_repr digits_int running_coordinator ''42'' 22
          (script [ok_json (JObj [(''data'', JObj [])]), rooms_reply [kitchen], devices_reply [heater]]))
     = Inr ()
   \<and> refresh_requests (fst (snd (set_temperature no_repr digits_int running_coordinator ''42'' 22
          (script [ok_json (JObj [(''data'', JObj [])]), rooms_reply [kitchen], devices_reply [heater]]))))
     = 1
   \<and> set_temperature no_repr digits_int running_coordinator ''42'' 22 (script [server_error])
     = (Inl (Exn ClientError ''500, message=Internal Server Error''), running_coordinator,
        snd (api_set_temperature no_repr logged_in_api 42 22 (script [server_error])))
   \<and> map rq_payload (sent (snd (api_set_temperature no_repr logged_in_api 42 22
          (script [server_error])))) = [SetRoomAdjustTemperature (JInt 7) 42 22]"
proof -
  let ?c = running_coordinator
  let ?ok = "script [ok_json (JObj [(''data'', JObj [])]), rooms_reply [kitchen], devices_reply [heater]]"
  let ?bad = "script [server_error]"
  let ?e = "Exn ClientError ''500, message=Internal Server Error''"
  have a [simp]: "api ?c = logged_in_api"
    by (simp add: running_coordinator_def)
  have pid: "property_id (api ?c) = Some (JInt 7)"
    by (simp add: scenario_defs)
  have n: "digits_int ''42'' = Inr 42"
    by (simp add: digits_int_def)
  have m_ok: "set_heating_mode no_repr (api ?c) ''off'' ?ok
      = (Inr (JObj [(''data'', JObj [])]), snd (set_heating_mode no_repr (api ?c) ''off'' ?ok))"
    by (simp add: scenario_defs py_defs api_defs)
  have m_bad: "set_heating_mode no_repr (api ?c) ''off'' ?bad
      = (Inl ?e, snd (set_heating_mode no_repr (api ?c) ''off'' ?bad))"
    by (simp add: scenario_defs py_defs api_defs)
  have t_ok: "api_set_temperature no_repr (api ?c) 42 22 ?ok
      = (Inr (JObj [(''data'', JObj [])]), snd (api_set_temperature no_repr (api ?c) 42 22 ?ok))"
    by (simp add: scenario_defs py_defs api_defs)
  have t_bad: "api_set_temperature no_repr (api ?c) 42 22 ?bad
      = (Inl ?e, snd (api_set_temperature no_repr (api ?c) 42 22 ?bad))"
    by (simp add: scenario_defs py_defs api_defs)
  note ok = command_then_refresh [where rp = no_repr and c = ?c and mode = "''off''" and w = ?ok
      and to_int = digits_int and room_id = "''42''" and temp = 22]
  note bad = command_then_refresh [where rp = no_repr and c = ?c and mode = "''off''" and w = ?bad
      and to_int = digits_int and room_id = "''42''" and temp = 22]
  have 1: "set_mode no_repr ?c ''off'' ?ok
      = (Inr (), async_request_refresh no_repr ?c (snd (set_heating_mode no_repr (api ?c) ''off'' ?ok)))"
    "refresh_requests (fst (async_request_refresh no_repr ?c
        (snd (set_heating_mode no_repr (api ?c) ''off'' ?ok)))) = Suc (refresh_requests ?c)"
    using ok m_ok by blast+
  have 2: "set_mode no_repr ?c ''off'' ?bad
      = (Inl ?e, ?c, snd (set_heating_mode no_repr (api ?c) ''off'' ?bad))"
    using bad m_bad by blast
  have 3: "set_temperature no_repr digits_int ?c ''42'' 22 ?ok
      = (Inr (), async_request_refresh no_repr ?c (snd (api_set_temperature no_repr (api ?c) 42 22 ?ok)))"
    "refresh_requests (fst (async_request_refresh no_repr ?c
        (snd (api_set_temperature no_repr (api ?c) 42 22 ?ok)))) = Suc (refresh_requests ?c)"
    using ok n t_ok by blast+
  have 4: "set_temperature no_repr digits_int ?c ''42'' 22 ?bad
      = (Inl ?e, ?c, snd (api_set_temperature no_repr (api ?c) 42 22 ?bad))"
    using bad n t_bad by blast
  have 5: "sent (snd (api_set_temperature no_repr (api ?c) 42 22 ?bad))
      = sent ?bad @ [\<lparr>rq_method = ''POST'', rq_url = url,
                        rq_authorization = authorization (api ?c),
                        rq_payload = SetRoomAdjustTemperature (JInt 7) 42 22\<rparr>]"
    using bad pid by blast
  have r0: "refresh_requests ?c = 0"
    by (simp add: running_coordinator_def)
  from 1 2 3 4 5 r0 show ?thesis
    by (simp add: script_def)
qed

subsection \<open>The password\<close>

lemma authenticate_sent:
  assumes "make_request rp a ''GET'' base_url NoBody w = (Inr j, w1)"
  shows "map rq_payload (sent (snd (snd (authenticate rp a w))))
           = map rq_payload (sent w) @ [NoBody, LogIn (email a) (unquote (password a))]"
proof -
  have "sent w1 = sent w @ [\<lparr>rq_method = ''GET'', rq_url = base_url,
      rq_authorization = authorization a, rq_payload = NoBody\<rparr>]"
    using assms by (auto simp: make_request_def)
  then show ?thesis
    using assms
    by (auto simp: authenticate_def make_request_def split: prod.splits sum.splits)
qed

text \<open>
  Claim C10, as stated, at the password that is the single code point U+D800, a lone
  surrogate, which a Python string can hold: \<^verbatim>\<open>quote\<close> encodes with the strict UTF-8
  codec and raises \<^verbatim>\<open>UnicodeEncodeError\<close>, so the constructor fails and
  \<^verbatim>\<open>unquote(quote(p))\<close> has no value.
\<close>

theorem surrogate_password_rejected:
  "quote [0xD800] = Inl (surrogate_error 0xD800 0 1)
   \<and> TikoAPI ''user@example.org'' [0xD800] = Inl (surrogate_error 0xD800 0 1)
   \<and> cls (surrogate_error 0xD800 0 1) = UnicodeEncodeError"
  by (simp add: TikoAPI_def quote_def utf8_encode_def is_surrogate_def surrogate_error_def)

text \<open>
  Claim C10, amended: for every password \<open>p\<close> without surrogate code points the
  constructor stores \<^verbatim>\<open>quote(p)\<close>, \<^verbatim>\<open>unquote\<close> of what it stored is \<open>p\<close>, and when the
  priming GET succeeds \<^verbatim>\<open>authenticate\<close> sends a \<^verbatim>\<open>LogIn\<close> whose password is exactly
  \<open>p\<close>; percent signs and characters outside ASCII are no exception. For a password with
  a surrogate the constructor raises \<^verbatim>\<open>UnicodeEncodeError\<close>.
\<close>

theorem password_round_trip:
  assumes "is_pystr p"
  shows "(list_all (\<lambda>c. \<not> is_surrogate c) p \<longrightarrow>
            (case TikoAPI em p of
               Inl e \<Rightarrow> False
             | Inr a \<Rightarrow>
                 email a = em \<and> unquote (password a) = p
                 \<and> (\<forall>rp w j w1. make_request rp a ''GET'' base_url NoBody w = (Inr j, w1) \<longrightarrow>
                       map rq_payload (sent (snd (snd (authenticate rp a w))))
                         = map rq_payload (sent w) @ [NoBody, LogIn em p])))
         \<and> (\<not> list_all (\<lambda>c. \<not> is_surrogate c) p \<longrightarrow>
              (case TikoAPI em p of Inl e \<Rightarrow> cls e = UnicodeEncodeError | Inr a \<Rightarrow> False))"
proof (cases "list_all (\<lambda>c. \<not> is_surrogate c) p")
  case True
  with assms obtain q where q: "quote p = Inr q" "unquote q = p"
    using unquote_quote by blast
  let ?a = "\<lparr>email = em, password = q, token = None, user_id = None,
             property_id = None, authorization = None\<rparr>"
  have "TikoAPI em p = Inr ?a"
    using q(1) by (simp add: TikoAPI_def)
  moreover have "map rq_payload (sent (snd (snd (authenticate rp ?a w))))
                   = map rq_payload (sent w) @ [NoBody, LogIn em p]"
    if "make_request rp ?a ''GET'' base_url NoBody w = (Inr j, w1)" for rp w j w1
    using authenticate_sent [OF that] q(2) by simp
  ultimately show ?thesis
    using True q(2) by simp
next
  case False
  then obtain e where "quote p = Inl e" "cls e = UnicodeEncodeError"
    using quote_surrogate by blast
  then show ?thesis
    using False by (simp add: TikoAPI_def)
qed

theorem password_round_trip_witness:
  "is_pystr odd_password \<and> list_all (\<lambda>c. \<not> is_surrogate c) odd_password
   \<and> (case TikoAPI ''user@example.org'' odd_password of
         Inl e \<Rightarrow> False
       | Inr a \<Rightarrow>
           unquote (password a) = odd_password
           \<and> map rq_payload (sent (snd (snd (authenticate no_repr a (script [ok_json JNull, login_ok])))))
               = [NoBody, LogIn ''user@example.org'' odd_password])
   \<and> is_pystr [0xD800] \<and> \<not> list_all (\<lambda>c. \<not> is_surrogate c) [0xD800]
   \<and> (case TikoAPI ''user@example.org'' [0xD800] of
         Inl e \<Rightarrow> cls e = UnicodeEncodeError
       | Inr a \<Rightarrow> False)"
proof -
  have p: "is_pystr odd_password" "list_all (\<lambda>c. \<not> is_surrogate c) odd_password"
    by (simp_all add: odd_password_def is_pystr_def is_surrogate_def ascii_def)
  have s: "is_pystr [0xD800]" "\<not> list_all (\<lambda>c. \<not> is_surrogate c) [0xD800]"
    by (simp_all add: is_pystr_def is_surrogate_def)
  have get: "make_request no_repr a ''GET'' base_url NoBody (script [ok_json JNull, login_ok])
      = (Inr (JObj []), snd (make_request no_repr a ''GET'' base_url NoBody (script [ok_json JNull, login_ok])))"
    for a
    by (simp add: make_request_def handle_reply_def scenario_defs)
  have empty: "sent (script [ok_json JNull, login_ok]) = []"
    by (simp add: script_def)
  have "case TikoAPI ''user@example.org'' odd_password of
         Inl e \<Rightarrow> False
       | Inr a \<Rightarrow>
           unquote (password a) = odd_password
           \<and> map rq_payload (sent (snd (snd (authenticate no_repr a (script [ok_json JNull, login_ok])))))
               = [NoBody, LogIn ''user@example.org'' odd_password]"
  proof (cases "TikoAPI ''user@example.org'' odd_password")
    case (Inl e)
    with password_round_trip [OF p(1), of "''user@example.org''"] p(2) show ?thesis
      by simp
  next
    case (Inr a)
    with password_round_trip [OF p(1), of "''user@example.org''"] p(2)
    have u: "unquote (password a) = odd_password"
      and l: "\<And>rp w j w1. make_request rp a ''GET'' base_url NoBody w = (Inr j, w1) \<Longrightarrow>
                map rq_payload (sent (snd (snd (authenticate rp a w))))
                  = map rq_payload (sent w) @ [NoBody, LogIn ''user@example.org'' odd_password]"
      by simp_all
    from l [OF get] u Inr show ?thesis
      by (simp add: empty)
  qed
  moreover from password_round_trip [OF s(1), of "''user@example.org''"] s(2)
  have "case TikoAPI ''user@example.org'' [0xD800] of
         Inl e \<Rightarrow> cls e = UnicodeEncodeError
       | Inr a \<Rightarrow> False"
    by blast
  ultimately show ?thesis
    using p s by blast
qed

end
